theory Spec2Isabelle
  imports Main
begin

section \<open>Values, rows and errors\<close>

text \<open>
  A shallow embedding of the database gateway: \<open>DatabaseService\<close>
  (database-service.js), \<open>DataMigrationService\<close> (data-migration-service) and the
  \<open>replicate_database\<close> handler of index.js.

  Conventions of the model.
  \<^item> A JavaScript string is a \<open>string\<close>; every character stands for one code unit.
    \<open>toUpperCase\<close> is modelled on the ASCII letters: it is exact on text that has no
    other letters.
  \<^item> A loosely typed scalar is a \<open>val\<close>. A number is an integer, a count or a cap a
    natural number, and a template literal prints it in decimal digits, as JavaScript
    does below \<open>10\<^sup>2\<^sup>1\<close>.
  \<^item> A row object is the list of its own properties in \<open>Object.keys\<close> order; reading a
    missing property gives \<open>VUndefined\<close>. The names read from a row are taken to be names
    that \<open>Object.prototype\<close> does not have: for a name such as \<open>constructor\<close> a row
    without the key would give the inherited property.
  \<^item> A thrown error is a value \<open>Inl e\<close>; \<open>await\<close> on a rejected promise is the same
    branch. \<open>console.log\<close> and \<open>console.error\<close> are not modelled.
  \<^item> The native drivers are not part of the repository. A pool is a record of the
    driver methods the code calls, each an arbitrary function on the state \<open>'d\<close> of the
    outside world. Every native call is appended to the \<open>trace\<close> of the world together
    with a flag telling whether it succeeded.
  \<^item> SQL texts that the source writes over several lines are written with every run of
    white space as one blank and without leading and trailing white space.
\<close>

datatype val = VUndefined | VNull | VBool bool | VNum int | VStr string

type_synonym row = "(string \<times> val) list"

definition getProp :: "row \<Rightarrow> string \<Rightarrow> val" where
  "getProp r c = (case map_of r c of None \<Rightarrow> VUndefined | Some v \<Rightarrow> v)"

definition objectKeys :: "row \<Rightarrow> string list" where
  "objectKeys r = map fst r"


fun truthy :: "val \<Rightarrow> bool" where
  "truthy VUndefined = False"
| "truthy VNull = False"
| "truthy (VBool b) = b"
| "truthy (VNum n) = (n \<noteq> 0)"
| "truthy (VStr s) = (s \<noteq> [])"

datatype error = Error string | TypeError string

fun message :: "error \<Rightarrow> string" where
  "message (Error m) = m"
| "message (TypeError m) = m"

definition undefinedRead :: "string \<Rightarrow> error" where
  "undefinedRead p =
     TypeError (''Cannot read properties of undefined (reading ''
                @ [CHR 0x27] @ p @ [CHR 0x27] @ '')'')"

section \<open>Strings\<close>

fun joinStr :: "string \<Rightarrow> string list \<Rightarrow> string" where
  "joinStr sep [] = []"
| "joinStr sep [x] = x"
| "joinStr sep (x # y # ys) = x @ sep @ joinStr sep (y # ys)"

definition digitChar :: "nat \<Rightarrow> char" where
  "digitChar d = char_of (48 + d)"

fun showNat :: "nat \<Rightarrow> string" where
  "showNat n = (if n < 10 then [digitChar n] else showNat (n div 10) @ [digitChar (n mod 10)])"

declare showNat.simps [simp del]

definition showInt :: "int \<Rightarrow> string" where
  "showInt i = (if i < 0 then CHR ''-'' # showNat (nat (- i)) else showNat (nat i))"

definition upperChar :: "char \<Rightarrow> char" where
  "upperChar c =
     (if (97::nat) \<le> of_char c \<and> of_char c \<le> (122::nat)
      then char_of (of_char c - (32::nat)) else c)"

definition toUpperCase :: "string \<Rightarrow> string" where
  "toUpperCase s = map upperChar s"

section \<open>Connections, native drivers and the world\<close>

datatype vendor = Oracle | Postgresql | Mysql | Mariadb | Sqlserver | Sqlite | OtherVendor string

fun vendorName :: "vendor \<Rightarrow> string" where
  "vendorName Oracle = ''oracle''"
| "vendorName Postgresql = ''postgresql''"
| "vendorName Mysql = ''mysql''"
| "vendorName Mariadb = ''mariadb''"
| "vendorName Sqlserver = ''sqlserver''"
| "vendorName Sqlite = ''sqlite''"
| "vendorName (OtherVendor v) = v"

text \<open>
  Results of the native drivers. \<open>ora_result\<close> is what \<open>connection.execute\<close> of the
  pool-leasing driver resolves with: \<open>metaData\<close> and \<open>rows\<close> are absent for a statement
  that is not a query. \<open>pg_result\<close> is the result object of \<open>pool.query\<close> of the first
  promise-style driver. The second promise-style driver resolves with a pair whose first
  component is the row array of a query (with the field list as second component) or the
  header object of any other statement (with its \<open>affectedRows\<close>).
\<close>

record ora_result =
  metaData :: "string list option"
  oraRows :: "row list option"

record pg_result =
  pgFields :: "string list"
  pgRows :: "row list"
  pgRowCount :: "nat option"

datatype my_result = MySelect "row list" "string list" | MyHeader "nat option"

text \<open>
  The event-driven driver: a request emits metadata and row events and then exactly one
  terminal event. A row event carries the cells of the row, each with the column name of
  its metadata and its value.
\<close>

datatype tds_event = ColumnMetadata "string list" | RowEvent row

datatype tds_end = RequestCompleted | ErrorEvent error

type_synonym tds_stream = "tds_event list \<times> tds_end"

datatype tx_op = TxBegin | TxCommit | TxRollback

record 'd pool =
  getConnection :: "'d \<Rightarrow> (error + nat) \<times> 'd"
  execute :: "nat \<Rightarrow> string \<Rightarrow> row \<Rightarrow> row \<Rightarrow> 'd \<Rightarrow> (error + ora_result) \<times> 'd"
  executeMany :: "nat \<Rightarrow> string \<Rightarrow> val list list \<Rightarrow> row \<Rightarrow> 'd \<Rightarrow> (error + nat option) \<times> 'd"
  close :: "nat \<Rightarrow> 'd \<Rightarrow> (error + unit) \<times> 'd"
  connectionsInUse :: "'d \<Rightarrow> nat option"
  totalCount :: "'d \<Rightarrow> nat option"
  pgQuery :: "string \<Rightarrow> val list \<Rightarrow> 'd \<Rightarrow> (error + pg_result) \<times> 'd"
  myQuery :: "string \<Rightarrow> val list \<Rightarrow> 'd \<Rightarrow> (error + my_result) \<times> 'd"
  prepare :: "string \<Rightarrow> 'd \<Rightarrow> (error + nat) \<times> 'd"
  stmtAll :: "nat \<Rightarrow> 'd \<Rightarrow> (error + row list) \<times> 'd"
  stmtGet :: "nat \<Rightarrow> 'd \<Rightarrow> (error + row option) \<times> 'd"
  stmtRun :: "nat \<Rightarrow> val list \<Rightarrow> 'd \<Rightarrow> (error + unit) \<times> 'd"
  transaction :: "tx_op \<Rightarrow> 'd \<Rightarrow> (error + unit) \<times> 'd"
  request :: "'d \<Rightarrow> (error + nat) \<times> 'd"
  requestQuery :: "nat \<Rightarrow> string \<Rightarrow> 'd \<Rightarrow> (error + tds_stream) \<times> 'd"

record config =
  schema :: "string option"
  database :: "string option"
  maxPoolSize :: "nat option"

record 'd connection =
  connId :: string
  vendor :: vendor
  pool :: "'d pool"
  connectionString :: string
  config :: config

datatype call =
    GetConnection
  | Execute nat string row row
  | ExecuteMany nat string "val list list" row
  | Close nat
  | PgQuery string "val list"
  | MyQuery string "val list"
  | Prepare string
  | StmtAll nat
  | StmtGet nat
  | StmtRun nat "val list"
  | Transaction tx_op
  | Request
  | RequestQuery nat string

record 'd world =
  trace :: "(call \<times> bool) list"
  outside :: 'd
  clock :: "'d \<Rightarrow> int"

type_synonym ('a, 'd) act = "'d world \<Rightarrow> (error + 'a) \<times> 'd world"

definition ret :: "'a \<Rightarrow> ('a, 'd) act" where
  "ret x w = (Inr x, w)"

definition throw :: "error \<Rightarrow> ('a, 'd) act" where
  "throw e w = (Inl e, w)"

definition bnd :: "('a, 'd) act \<Rightarrow> ('a \<Rightarrow> ('b, 'd) act) \<Rightarrow> ('b, 'd) act" where
  "bnd m k w = (case m w of (Inl e, w1) \<Rightarrow> (Inl e, w1) | (Inr x, w1) \<Rightarrow> k x w1)"

text \<open>\<open>try { body } finally { fin }\<close>: the \<open>finally\<close> block always runs; an error it throws
  replaces the outcome of the body.\<close>

definition tryFinally :: "('a, 'd) act \<Rightarrow> (unit, 'd) act \<Rightarrow> ('a, 'd) act" where
  "tryFinally body fin w =
     (case body w of (r, w1) \<Rightarrow>
        (case fin w1 of (Inl e, w2) \<Rightarrow> (Inl e, w2) | (Inr u, w2) \<Rightarrow> (r, w2)))"

definition tryCatch :: "('a, 'd) act \<Rightarrow> (error \<Rightarrow> ('a, 'd) act) \<Rightarrow> ('a, 'd) act" where
  "tryCatch body handler w =
     (case body w of (Inl e, w1) \<Rightarrow> handler e w1 | (Inr x, w1) \<Rightarrow> (Inr x, w1))"

text \<open>A native call: run the driver method on the outside state and record the call.\<close>

definition native :: "call \<Rightarrow> ('d \<Rightarrow> (error + 'a) \<times> 'd) \<Rightarrow> ('a, 'd) act" where
  "native c f w =
     (case f (outside w) of (r, d) \<Rightarrow>
        (r, w\<lparr>trace := trace w @ [(c, \<not> isl r)], outside := d\<rparr>))"

definition dateNow :: "'d world \<Rightarrow> int" where
  "dateNow w = clock w (outside w)"



lemma native_ok:
  "f (outside w) = (Inr x, d) \<Longrightarrow>
   native c f w = (Inr x, w\<lparr>trace := trace w @ [(c, True)], outside := d\<rparr>)"
  by (simp add: native_def)

lemma native_fail:
  "f (outside w) = (Inl e, d) \<Longrightarrow>
   native c f w = (Inl e, w\<lparr>trace := trace w @ [(c, False)], outside := d\<rparr>)"
  by (simp add: native_def)



lemma tryFinally_native:
  "body w = (r, w1) \<Longrightarrow>
   tryFinally body (native c f) w =
     (case f (outside w1) of
        (Inl e, d) \<Rightarrow> (Inl e, w1\<lparr>trace := trace w1 @ [(c, False)], outside := d\<rparr>)
      | (Inr u, d) \<Rightarrow> (r, w1\<lparr>trace := trace w1 @ [(c, True)], outside := d\<rparr>))"
  by (simp add: tryFinally_def native_def split: prod.splits sum.splits)

section \<open>DatabaseService.insertBatch\<close>

definition quote :: "vendor \<Rightarrow> string \<Rightarrow> string" where
  "quote v ident =
     (if v = Mysql \<or> v = Mariadb then [CHR 0x60] @ ident @ [CHR 0x60]
      else [CHR 0x22] @ ident @ [CHR 0x22])"

text \<open>\<open>pool.transaction(fn)(data)\<close> of the embedded driver: BEGIN, the function, COMMIT;
  when the function or the COMMIT throws, ROLLBACK and the error is thrown again.\<close>

definition inTransaction :: "'d pool \<Rightarrow> ('a, 'd) act \<Rightarrow> ('a, 'd) act" where
  "inTransaction p body =
     bnd (native (Transaction TxBegin) (transaction p TxBegin)) (\<lambda>u.
       tryCatch
         (bnd body (\<lambda>x. bnd (native (Transaction TxCommit) (transaction p TxCommit)) (\<lambda>u. ret x)))
         (\<lambda>e w. case native (Transaction TxRollback) (transaction p TxRollback) w of
                  (r, w1) \<Rightarrow> (Inl e, w1)))"

fun insertRows :: "'d pool \<Rightarrow> nat \<Rightarrow> string list \<Rightarrow> row list \<Rightarrow> nat \<Rightarrow> (nat, 'd) act" where
  "insertRows p stmt cols [] count = ret count"
| "insertRows p stmt cols (r # data) count =
     bnd (native (StmtRun stmt (map (getProp r) cols)) (stmtRun p stmt (map (getProp r) cols)))
       (\<lambda>u. insertRows p stmt cols data (count + 1))"

definition numberedPlaceholders :: "nat \<Rightarrow> nat \<Rightarrow> string list" where
  "numberedPlaceholders first n = map (\<lambda>i. CHR ''$'' # showNat i) [first ..< first + n]"

definition pgRowPlaceholders :: "nat \<Rightarrow> nat \<Rightarrow> string list" where
  "pgRowPlaceholders ncols nrows =
     map (\<lambda>k. ''('' @ joinStr '', '' (numberedPlaceholders (1 + k * ncols) ncols) @ '')'')
       [0 ..< nrows]"

definition myRowPlaceholders :: "nat \<Rightarrow> nat \<Rightarrow> string list" where
  "myRowPlaceholders ncols nrows =
     replicate nrows (''('' @ joinStr '', '' (replicate ncols ''?'') @ '')'')"

definition insertBatch :: "'d connection \<Rightarrow> string \<Rightarrow> row list \<Rightarrow> (nat, 'd) act" where
  "insertBatch c tableName rws =
     (case rws of
        [] \<Rightarrow> ret 0
      | r0 # rest \<Rightarrow>
          (let v = vendor c; p = pool c;
               distinctColumns = objectKeys r0;
               colNames = joinStr '', '' (map (quote v) distinctColumns)
           in tryCatch
             (if v = Oracle then
                bnd (native GetConnection (getConnection p)) (\<lambda>conn.
                  tryFinally
                    (let sql = ''INSERT INTO '' @ quote v tableName @ '' ('' @ colNames @ '') VALUES (''
                           @ joinStr '', '' (map (\<lambda>i. CHR '':'' # showNat i) [0 ..< length distinctColumns])
                           @ '')'';
                         binds = map (\<lambda>r. map (getProp r) distinctColumns) rws;
                         opts = [(''autoCommit'', VBool True)]
                     in bnd (native (ExecuteMany conn sql binds opts) (executeMany p conn sql binds opts))
                          (\<lambda>rowsAffected. ret (case rowsAffected of
                                None \<Rightarrow> length rws
                              | Some n \<Rightarrow> if n = 0 then length rws else n)))
                    (native (Close conn) (close p conn)))
              else if v = Sqlite then
                (let placeholders = ''('' @ joinStr '', '' (map (\<lambda>k. ''?'') distinctColumns) @ '')'';
                     sql = ''INSERT INTO '' @ quote v tableName @ '' ('' @ colNames @ '') VALUES ''
                           @ placeholders
                 in bnd (native (Prepare sql) (prepare p sql)) (\<lambda>insert.
                      inTransaction p (insertRows p insert distinctColumns rws 0)))
              else if v = Postgresql then
                (let values = concat (map (\<lambda>r. map (getProp r) distinctColumns) rws);
                     rowPlaceholders = pgRowPlaceholders (length distinctColumns) (length rws);
                     sql = ''INSERT INTO '' @ quote v tableName @ '' ('' @ colNames @ '') VALUES ''
                           @ joinStr '', '' rowPlaceholders
                 in bnd (native (PgQuery sql values) (pgQuery p sql values))
                      (\<lambda>result. ret (case pgRowCount result of None \<Rightarrow> 0 | Some n \<Rightarrow> n)))
              else if v = Mysql \<or> v = Mariadb then
                (let values = concat (map (\<lambda>r. map (getProp r) distinctColumns) rws);
                     rowPlaceholders = myRowPlaceholders (length distinctColumns) (length rws);
                     sql = ''INSERT INTO '' @ quote v tableName @ '' ('' @ colNames @ '') VALUES ''
                           @ joinStr '', '' rowPlaceholders
                 in bnd (native (MyQuery sql values) (myQuery p sql values))
                      (\<lambda>result. ret (case result of
                            MyHeader (Some n) \<Rightarrow> if n = 0 then length rws else n
                          | MyHeader None \<Rightarrow> length rws
                          | MySelect rs fs \<Rightarrow> length rws)))
              else ret 0)
             (\<lambda>e. throw e)))"

section \<open>DatabaseService.executeQuery\<close>

record query_result =
  columns :: "string list"
  rows :: "row list"
  rowCount :: nat
  executionTime :: nat

definition executeOracleQuery :: "'d pool \<Rightarrow> string \<Rightarrow> nat \<Rightarrow> (query_result, 'd) act" where
  "executeOracleQuery p sql maxRows =
     bnd (native GetConnection (getConnection p)) (\<lambda>conn.
       tryFinally
         (let opts = [(''maxRows'', VNum (int maxRows)), (''outFormat'', VNum 4002)]
          in bnd (native (Execute conn sql [] opts) (execute p conn sql [] opts)) (\<lambda>result.
               ret \<lparr>columns = (case metaData result of None \<Rightarrow> [] | Some m \<Rightarrow> m),
                    rows = (case oraRows result of None \<Rightarrow> [] | Some rs \<Rightarrow> rs),
                    rowCount = (case oraRows result of None \<Rightarrow> 0 | Some rs \<Rightarrow> length rs),
                    executionTime = 0\<rparr>))
         (native (Close conn) (close p conn)))"

definition limited :: "string \<Rightarrow> nat \<Rightarrow> string" where
  "limited sql maxRows = sql @ '' LIMIT '' @ showNat maxRows"

definition executePostgresQuery :: "'d pool \<Rightarrow> string \<Rightarrow> nat \<Rightarrow> (query_result, 'd) act" where
  "executePostgresQuery p sql maxRows =
     bnd (native (PgQuery (limited sql maxRows) []) (pgQuery p (limited sql maxRows) []))
       (\<lambda>result.
          ret \<lparr>columns = pgFields result, rows = pgRows result,
               rowCount = (case pgRowCount result of None \<Rightarrow> 0 | Some n \<Rightarrow> n),
               executionTime = 0\<rparr>)"

definition notAFunction :: "string \<Rightarrow> error" where
  "notAFunction f = TypeError (f @ '' is not a function'')"

definition executeMySqlQuery :: "'d pool \<Rightarrow> string \<Rightarrow> nat \<Rightarrow> (query_result, 'd) act" where
  "executeMySqlQuery p sql maxRows =
     bnd (native (MyQuery (limited sql maxRows) []) (myQuery p (limited sql maxRows) []))
       (\<lambda>result. case result of
            MySelect rs fs \<Rightarrow>
              ret \<lparr>columns = fs, rows = rs, rowCount = length rs, executionTime = 0\<rparr>
          | MyHeader a \<Rightarrow> throw (undefinedRead ''map''))"

text \<open>\<open>row[col.metadata.colName] = col.value\<close>: an assignment to a property the object
  already has keeps its place in the key order. The keys of an object are listed with
  the array indices first (the decimal numerals, without leading zero, of the numbers
  below \<open>2\<^sup>3\<^sup>2 - 1\<close>), in ascending order, and then the other keys in the order of their
  creation.\<close>

fun setProp :: "row \<Rightarrow> string \<Rightarrow> val \<Rightarrow> row" where
  "setProp [] k v = [(k, v)]"
| "setProp ((k', v') # r) k v = (if k' = k then (k, v) # r else (k', v') # setProp r k v)"

definition isDigit :: "char \<Rightarrow> bool" where
  "isDigit c = ((48::nat) \<le> of_char c \<and> of_char c \<le> (57::nat))"

definition numeralValue :: "string \<Rightarrow> nat" where
  "numeralValue k = foldl (\<lambda>n c. 10 * n + (of_char c - 48)) 0 k"

definition isArrayIndex :: "string \<Rightarrow> bool" where
  "isArrayIndex k =
     (k \<noteq> [] \<and> list_all isDigit k \<and> (k = ''0'' \<or> hd k \<noteq> CHR ''0'')
      \<and> numeralValue k < 4294967295)"

definition keyOrder :: "row \<Rightarrow> row" where
  "keyOrder r =
     sort_key (\<lambda>kv. numeralValue (fst kv)) (filter (\<lambda>kv. isArrayIndex (fst kv)) r)
     @ filter (\<lambda>kv. \<not> isArrayIndex (fst kv)) r"

definition rowOfCells :: "row \<Rightarrow> row" where
  "rowOfCells rowData = keyOrder (foldl (\<lambda>r cell. setProp r (fst cell) (snd cell)) [] rowData)"

text \<open>The handlers of \<open>executeSqlServerQuery\<close> run over the events of the request in
  the order of their arrival: \<open>columns\<close> and \<open>rows\<close> are the two variables they update.\<close>

fun consumeEvents :: "nat \<Rightarrow> tds_event list \<Rightarrow> string list \<Rightarrow> row list \<Rightarrow> string list \<times> row list" where
  "consumeEvents maxRows [] cols rws = (cols, rws)"
| "consumeEvents maxRows (ColumnMetadata columnsMetadata # evs) cols rws =
     consumeEvents maxRows evs columnsMetadata rws"
| "consumeEvents maxRows (RowEvent rowData # evs) cols rws =
     consumeEvents maxRows evs cols
       (if length rws < maxRows then rws @ [rowOfCells rowData] else rws)"

definition executeSqlServerQuery :: "'d pool \<Rightarrow> string \<Rightarrow> nat \<Rightarrow> (query_result, 'd) act" where
  "executeSqlServerQuery p sql maxRows =
     bnd (native Request (request p)) (\<lambda>req.
       bnd (native (RequestQuery req sql) (requestQuery p req sql)) (\<lambda>stream.
         case snd stream of
           RequestCompleted \<Rightarrow>
             (case consumeEvents maxRows (fst stream) [] [] of
                (cols, rws) \<Rightarrow>
                  ret \<lparr>columns = cols, rows = rws, rowCount = length rws, executionTime = 0\<rparr>)
         | ErrorEvent e \<Rightarrow> throw e))"

definition executeSqliteQuery :: "'d pool \<Rightarrow> string \<Rightarrow> nat \<Rightarrow> (query_result, 'd) act" where
  "executeSqliteQuery p sql maxRows =
     bnd (native (Prepare (limited sql maxRows)) (prepare p (limited sql maxRows))) (\<lambda>stmt.
       bnd (native (StmtAll stmt) (stmtAll p stmt)) (\<lambda>rws.
         ret \<lparr>columns = (case rws of [] \<Rightarrow> [] | r # rest \<Rightarrow> objectKeys r),
              rows = rws, rowCount = length rws, executionTime = 0\<rparr>))"

definition unsupportedVendor :: "vendor \<Rightarrow> error" where
  "unsupportedVendor v = Error (''Vendor no soportado: '' @ vendorName v)"

text \<open>\<open>executeQuery(sql, maxRows = 100)\<close>: an absent second argument is \<open>None\<close>.\<close>

definition executeQuery :: "'d connection \<Rightarrow> string \<Rightarrow> nat option \<Rightarrow> (query_result, 'd) act" where
  "executeQuery c sql maxRowsArg =
     (let maxRows = (case maxRowsArg of None \<Rightarrow> 100 | Some n \<Rightarrow> n);
          p = pool c
      in tryCatch
           (case vendor c of
              Oracle \<Rightarrow> executeOracleQuery p sql maxRows
            | Postgresql \<Rightarrow> executePostgresQuery p sql maxRows
            | Mysql \<Rightarrow> executeMySqlQuery p sql maxRows
            | Mariadb \<Rightarrow> executeMySqlQuery p sql maxRows
            | Sqlserver \<Rightarrow> executeSqlServerQuery p sql maxRows
            | Sqlite \<Rightarrow> executeSqliteQuery p sql maxRows
            | OtherVendor v \<Rightarrow> throw (unsupportedVendor (OtherVendor v)))
           (\<lambda>e. throw (Error (''Error ejecutando query: '' @ message e))))"

section \<open>DatabaseService: introspection\<close>

text \<open>
  Names of tables and of key columns read from catalogue rows are kept as the text a
  template literal makes of the value (\<open>textOf\<close>), since the callers interpolate them
  into statements and reports. The \<open>name\<close> and the \<open>type\<close> of a described column stay the
  values that the row holds.
\<close>

fun textOf :: "val \<Rightarrow> string" where
  "textOf VUndefined = ''undefined''"
| "textOf VNull = ''null''"
| "textOf (VBool b) = (if b then ''true'' else ''false'')"
| "textOf (VNum n) = showInt n"
| "textOf (VStr s) = s"

text \<open>\<open>Array.prototype.join\<close> writes \<open>undefined\<close> and \<open>null\<close> as the empty text.\<close>

fun joinText :: "val \<Rightarrow> string" where
  "joinText VUndefined = []"
| "joinText VNull = []"
| "joinText (VBool b) = textOf (VBool b)"
| "joinText (VNum n) = textOf (VNum n)"
| "joinText (VStr s) = s"

definition sq :: "string \<Rightarrow> string" where
  "sq s = [CHR 0x27] @ s @ [CHR 0x27]"

definition lift :: "error + 'a \<Rightarrow> ('a, 'd) act" where
  "lift r = (case r of Inl e \<Rightarrow> throw e | Inr x \<Rightarrow> ret x)"

fun mapE :: "('a \<Rightarrow> error + 'b) \<Rightarrow> 'a list \<Rightarrow> error + 'b list" where
  "mapE f [] = Inr []"
| "mapE f (x # xs) =
     (case f x of
        Inl e \<Rightarrow> Inl e
      | Inr y \<Rightarrow> (case mapE f xs of Inl e \<Rightarrow> Inl e | Inr ys \<Rightarrow> Inr (y # ys)))"

text \<open>An entry of a table listing: \<open>tblName\<close>, \<open>tblType\<close> and \<open>tblSchema\<close> are its
  properties \<open>name\<close>, \<open>type\<close> and \<open>schema\<close>; only the listing of the pool-leasing vendor
  sets \<open>schema\<close>, to the value of the column OWNER.\<close>

record table_info =
  tblName :: string
  tblType :: string
  tblSchema :: "val option"

record column_info =
  colName :: val
  dataType :: val
  nullable :: bool
  isPrimaryKey :: bool

record foreign_key =
  fkColumn :: string
  refTable :: string
  refColumn :: string

definition present :: "string option \<Rightarrow> bool" where
  "present s = (case s of None \<Rightarrow> False | Some x \<Rightarrow> x \<noteq> [])"

definition orDefault :: "string option \<Rightarrow> string \<Rightarrow> string" where
  "orDefault s d = (case s of None \<Rightarrow> d | Some x \<Rightarrow> x)"

definition outFormatObject :: row where
  "outFormatObject = [(''outFormat'', VNum 4002)]"

text \<open>Reading \<open>result.rows\<close> of the pool-leasing driver where the code uses it unguarded.\<close>

definition rowsOrThrow :: "string \<Rightarrow> ora_result \<Rightarrow> (row list, 'd) act" where
  "rowsOrThrow p result =
     (case oraRows result of None \<Rightarrow> throw (undefinedRead p) | Some rs \<Rightarrow> ret rs)"

text \<open>The event-driven introspection calls: the row handler runs on every row event and
  the promise settles on the terminal event. An exception raised inside the row handler
  is reported as the failure of the call.\<close>

definition cellValue :: "row \<Rightarrow> nat \<Rightarrow> error + val" where
  "cellValue cells i =
     (if i < length cells then Inr (snd (cells ! i)) else Inl (undefinedRead ''value''))"

definition rowEvents :: "tds_event list \<Rightarrow> row list" where
  "rowEvents evs =
     concat (map (\<lambda>ev. case ev of RowEvent r \<Rightarrow> [r] | ColumnMetadata cs \<Rightarrow> []) evs)"

definition sqlServerCollect :: "'d pool \<Rightarrow> string \<Rightarrow> (row \<Rightarrow> error + 'a) \<Rightarrow> ('a list, 'd) act" where
  "sqlServerCollect p sql onRow =
     bnd (native Request (request p)) (\<lambda>req.
       bnd (native (RequestQuery req sql) (requestQuery p req sql)) (\<lambda>stream.
         bnd (lift (mapE onRow (rowEvents (fst stream)))) (\<lambda>xs.
           case snd stream of RequestCompleted \<Rightarrow> ret xs | ErrorEvent e \<Rightarrow> throw e)))"

definition mySelectRows :: "my_result \<Rightarrow> (row list, 'd) act" where
  "mySelectRows result =
     (case result of MySelect rs fs \<Rightarrow> ret rs | MyHeader a \<Rightarrow> throw (notAFunction ''rows.map''))"

subsection \<open>listTables\<close>

definition schemaTablesSql :: string where
  "schemaTablesSql =
     ''SELECT table_name, owner, num_rows, last_analyzed FROM all_tables WHERE owner = :schema ORDER BY table_name''"

definition userTablesSql :: string where
  "userTablesSql =
     ''SELECT table_name, owner, num_rows, last_analyzed FROM user_tables ORDER BY table_name''"

definition schemaCheckSql :: string where
  "schemaCheckSql =
     ''SELECT SYS_CONTEXT('' @ sq ''USERENV'' @ '', '' @ sq ''CURRENT_SCHEMA''
     @ '') as current_schema FROM DUAL''"

definition allTablesSql :: string where
  "allTablesSql =
     ''SELECT table_name, owner, num_rows, last_analyzed FROM all_tables WHERE owner IN ( SELECT username FROM all_users WHERE username NOT IN ('SYS', 'SYSTEM', 'OUTLN', 'DIP', 'ORACLE_OCM', 'DBSNMP', 'APPQOSSYS', 'WMSYS', 'EXFSYS', 'CTXSYS', 'XDB', 'ANONYMOUS', 'ORDSYS', 'ORDDATA', 'MDSYS', 'LBACSYS', 'DVSYS', 'DVF', 'GSMADMIN_INTERNAL', 'OJVMSYS', 'OLAPSYS') ) ORDER BY owner, table_name''"

definition oracleTableOfRow :: "row \<Rightarrow> table_info" where
  "oracleTableOfRow r =
     \<lparr>tblName = textOf (getProp r ''TABLE_NAME''), tblType = ''TABLE'',
      tblSchema = Some (getProp r ''OWNER'')\<rparr>"

text \<open>The \<open>try\<close> block of \<open>listOracleTables\<close>, on the leased connection.\<close>

definition oracleTablesBody :: "'d pool \<Rightarrow> nat \<Rightarrow> string option \<Rightarrow> (table_info list, 'd) act" where
  "oracleTablesBody p conn schm =
     (let sql = (if present schm then schemaTablesSql else userTablesSql);
          binds = (if present schm then [(''schema'', VStr (toUpperCase (the schm)))] else [])
      in bnd (native (Execute conn sql binds outFormatObject)
                (execute p conn sql binds outFormatObject)) (\<lambda>result.
         bnd (rowsOrThrow ''length'' result) (\<lambda>rs.
           if length rs = 0 then
             bnd (native (Execute conn schemaCheckSql [] outFormatObject)
                    (execute p conn schemaCheckSql [] outFormatObject)) (\<lambda>schemaResult.
               bnd (rowsOrThrow ''0'' schemaResult) (\<lambda>srs.
                 let currentSchema =
                       (case srs of [] \<Rightarrow> VUndefined | r # rest \<Rightarrow> getProp r ''CURRENT_SCHEMA'')
                 in if \<not> present schm \<or> VStr (toUpperCase (the schm)) = currentSchema then
                      bnd (native (Execute conn allTablesSql [] outFormatObject)
                             (execute p conn allTablesSql [] outFormatObject)) (\<lambda>allTablesResult.
                        bnd (rowsOrThrow ''length'' allTablesResult) (\<lambda>ars.
                          ret (map oracleTableOfRow ars)))
                    else ret (map oracleTableOfRow rs)))
           else ret (map oracleTableOfRow rs))))"

definition listOracleTables :: "'d pool \<Rightarrow> string option \<Rightarrow> (table_info list, 'd) act" where
  "listOracleTables p schm =
     bnd (native GetConnection (getConnection p)) (\<lambda>conn.
       tryFinally (oracleTablesBody p conn schm) (native (Close conn) (close p conn)))"







subsection \<open>describeTable, listPrimaryKeys, listForeignKeys\<close>

text \<open>The three remaining introspection calls of the pool-leasing vendor have one
  shape: lease a connection, execute one statement with \<open>outFormat\<close> set, map
  \<open>result.rows\<close>, and close the connection in \<open>finally\<close>.\<close>

definition oracleSelect :: "'d pool \<Rightarrow> string \<Rightarrow> row \<Rightarrow> (row list, 'd) act" where
  "oracleSelect p sql binds =
     bnd (native GetConnection (getConnection p)) (\<lambda>conn.
       tryFinally
         (bnd (native (Execute conn sql binds outFormatObject)
                 (execute p conn sql binds outFormatObject)) (\<lambda>result.
            rowsOrThrow ''map'' result))
         (native (Close conn) (close p conn)))"

definition oracleBinds :: "string \<Rightarrow> string option \<Rightarrow> row" where
  "oracleBinds tn schm =
     (if present schm then [(''tableName'', VStr tn), (''schema'', VStr (the schm))]
      else [(''tableName'', VStr tn)])"

definition columnOf :: "val \<Rightarrow> val \<Rightarrow> bool \<Rightarrow> bool \<Rightarrow> column_info" where
  "columnOf n t nl pk = \<lparr>colName = n, dataType = t, nullable = nl, isPrimaryKey = pk\<rparr>"

definition describeOracleTable :: "'d pool \<Rightarrow> string \<Rightarrow> string option \<Rightarrow> (column_info list, 'd) act" where
  "describeOracleTable p tn schm =
     bnd (oracleSelect p
            (if present schm
             then ''SELECT column_name, data_type, nullable FROM all_tab_columns WHERE table_name = :tableName AND owner = :schema''
             else ''SELECT column_name, data_type, nullable FROM user_tab_columns WHERE table_name = :tableName'')
            (oracleBinds tn schm))
       (\<lambda>rs. ret (map (\<lambda>r. columnOf (getProp r ''COLUMN_NAME'') (getProp r ''DATA_TYPE'')
                              (getProp r ''NULLABLE'' = VStr ''Y'') False) rs))"

definition describePostgresTable :: "'d pool \<Rightarrow> string \<Rightarrow> string option \<Rightarrow> (column_info list, 'd) act" where
  "describePostgresTable p tn schm =
     (let sql = ''SELECT column_name, data_type, is_nullable FROM information_schema.columns WHERE table_name = $1 AND table_schema = $2'';
          vals = [VStr tn, VStr (orDefault schm ''public'')]
      in bnd (native (PgQuery sql vals) (pgQuery p sql vals)) (\<lambda>result.
           ret (map (\<lambda>r. columnOf (getProp r ''column_name'') (getProp r ''data_type'')
                            (getProp r ''is_nullable'' = VStr ''YES'') False) (pgRows result))))"

definition describeMySqlTable :: "'d pool \<Rightarrow> string \<Rightarrow> (column_info list, 'd) act" where
  "describeMySqlTable p tn =
     (let sql = ''DESCRIBE '' @ [CHR 0x60] @ tn @ [CHR 0x60]
      in bnd (native (MyQuery sql []) (myQuery p sql [])) (\<lambda>result.
           bnd (mySelectRows result) (\<lambda>rs.
             ret (map (\<lambda>r. columnOf (getProp r ''Field'') (getProp r ''Type'')
                              (getProp r ''Null'' = VStr ''YES'') (getProp r ''Key'' = VStr ''PRI'')) rs))))"

definition describeSqlServerTable :: "'d pool \<Rightarrow> string \<Rightarrow> (column_info list, 'd) act" where
  "describeSqlServerTable p tn =
     sqlServerCollect p
       (''SELECT column_name, data_type, is_nullable FROM information_schema.columns WHERE table_name = ''
        @ sq tn)
       (\<lambda>cells. case cellValue cells 0 of Inl e \<Rightarrow> Inl e | Inr n \<Rightarrow>
          (case cellValue cells 1 of Inl e \<Rightarrow> Inl e | Inr t \<Rightarrow>
             (case cellValue cells 2 of Inl e \<Rightarrow> Inl e | Inr nl \<Rightarrow>
                Inr (columnOf n t (nl = VStr ''YES'') False))))"

definition describeSqliteTable :: "'d pool \<Rightarrow> string \<Rightarrow> (column_info list, 'd) act" where
  "describeSqliteTable p tn =
     (let sql = ''PRAGMA table_info('' @ tn @ '')''
      in bnd (native (Prepare sql) (prepare p sql)) (\<lambda>stmt.
           bnd (native (StmtAll stmt) (stmtAll p stmt)) (\<lambda>rs.
             ret (map (\<lambda>r. columnOf (getProp r ''name'') (getProp r ''type'')
                              (getProp r ''notnull'' = VNum 0) (getProp r ''pk'' = VNum 1)) rs))))"

definition describeTable :: "'d connection \<Rightarrow> string \<Rightarrow> (column_info list, 'd) act" where
  "describeTable c tn =
     (let p = pool c; cfg = config c
      in case vendor c of
           Oracle \<Rightarrow> describeOracleTable p tn (schema cfg)
         | Postgresql \<Rightarrow> describePostgresTable p tn (schema cfg)
         | Mysql \<Rightarrow> describeMySqlTable p tn
         | Mariadb \<Rightarrow> describeMySqlTable p tn
         | Sqlserver \<Rightarrow> describeSqlServerTable p tn
         | Sqlite \<Rightarrow> describeSqliteTable p tn
         | OtherVendor v \<Rightarrow> throw (unsupportedVendor (OtherVendor v)))"

definition listOraclePrimaryKeys :: "'d pool \<Rightarrow> string \<Rightarrow> string option \<Rightarrow> (string list, 'd) act" where
  "listOraclePrimaryKeys p tn schm =
     bnd (oracleSelect p
            (if present schm
             then ''SELECT cols.column_name FROM all_constraints cons JOIN all_cons_columns cols ON cons.constraint_name = cols.constraint_name AND cons.owner = cols.owner WHERE cons.constraint_type = ''
                  @ sq ''P'' @ '' AND cons.table_name = :tableName AND cons.owner = :schema ORDER BY cols.position''
             else ''SELECT cols.column_name FROM user_constraints cons JOIN user_cons_columns cols ON cons.constraint_name = cols.constraint_name WHERE cons.constraint_type = ''
                  @ sq ''P'' @ '' AND cons.table_name = :tableName ORDER BY cols.position'')
            (oracleBinds tn schm))
       (\<lambda>rs. ret (map (\<lambda>r. textOf (getProp r ''COLUMN_NAME'')) rs))"







definition foreignKeyOf :: "val \<Rightarrow> val \<Rightarrow> val \<Rightarrow> foreign_key" where
  "foreignKeyOf a b c = \<lparr>fkColumn = textOf a, refTable = textOf b, refColumn = textOf c\<rparr>"

definition listOracleForeignKeys :: "'d pool \<Rightarrow> string \<Rightarrow> string option \<Rightarrow> (foreign_key list, 'd) act" where
  "listOracleForeignKeys p tn schm =
     bnd (oracleSelect p
            (if present schm
             then ''SELECT a.column_name, c_pk.table_name as r_table_name, b.column_name as r_column_name FROM all_cons_columns a JOIN all_constraints c ON a.owner = c.owner AND a.constraint_name = c.constraint_name JOIN all_constraints c_pk ON c.r_owner = c_pk.owner AND c.r_constraint_name = c_pk.constraint_name JOIN all_cons_columns b ON c_pk.owner = b.owner AND c_pk.constraint_name = b.constraint_name AND b.position = a.position WHERE c.constraint_type = ''
                  @ sq ''R'' @ '' AND a.table_name = :tableName AND a.owner = :schema ORDER BY c.constraint_name, a.position''
             else ''SELECT a.column_name, c_pk.table_name as r_table_name, b.column_name as r_column_name FROM user_cons_columns a JOIN user_constraints c ON a.constraint_name = c.constraint_name JOIN user_constraints c_pk ON c.r_constraint_name = c_pk.constraint_name JOIN user_cons_columns b ON c_pk.constraint_name = b.constraint_name AND b.position = a.position WHERE c.constraint_type = ''
                  @ sq ''R'' @ '' AND a.table_name = :tableName ORDER BY c.constraint_name, a.position'')
            (oracleBinds tn schm))
       (\<lambda>rs. ret (map (\<lambda>r. foreignKeyOf (getProp r ''COLUMN_NAME'') (getProp r ''R_TABLE_NAME'')
                              (getProp r ''R_COLUMN_NAME'')) rs))"

definition listPostgresForeignKeys :: "'d pool \<Rightarrow> string \<Rightarrow> string option \<Rightarrow> (foreign_key list, 'd) act" where
  "listPostgresForeignKeys p tn schm =
     (let sql = ''SELECT kcu.column_name, ccu.table_name AS foreign_table_name, ccu.column_name AS foreign_column_name FROM information_schema.table_constraints AS tc JOIN information_schema.key_column_usage AS kcu ON tc.constraint_name = kcu.constraint_name AND tc.table_schema = kcu.table_schema JOIN information_schema.constraint_column_usage AS ccu ON ccu.constraint_name = tc.constraint_name AND ccu.table_schema = tc.table_schema WHERE tc.constraint_type = ''
                @ sq ''FOREIGN KEY'' @ '' AND tc.table_name = $1 AND tc.table_schema = $2'';
          vals = [VStr tn, VStr (orDefault schm ''public'')]
      in bnd (native (PgQuery sql vals) (pgQuery p sql vals)) (\<lambda>result.
           ret (map (\<lambda>r. foreignKeyOf (getProp r ''column_name'') (getProp r ''foreign_table_name'')
                            (getProp r ''foreign_column_name'')) (pgRows result))))"

definition listMySqlForeignKeys :: "'d pool \<Rightarrow> string \<Rightarrow> (foreign_key list, 'd) act" where
  "listMySqlForeignKeys p tn =
     (let sql = ''SELECT COLUMN_NAME as column_name, REFERENCED_TABLE_NAME as foreign_table_name, REFERENCED_COLUMN_NAME as foreign_column_name FROM INFORMATION_SCHEMA.KEY_COLUMN_USAGE WHERE TABLE_NAME = ? AND REFERENCED_TABLE_NAME IS NOT NULL''
      in bnd (native (MyQuery sql [VStr tn]) (myQuery p sql [VStr tn])) (\<lambda>result.
           bnd (mySelectRows result) (\<lambda>rs.
             ret (map (\<lambda>r. foreignKeyOf (getProp r ''column_name'') (getProp r ''foreign_table_name'')
                              (getProp r ''foreign_column_name'')) rs))))"

definition listSqlServerForeignKeys :: "'d pool \<Rightarrow> string \<Rightarrow> (foreign_key list, 'd) act" where
  "listSqlServerForeignKeys p tn =
     sqlServerCollect p
       (''SELECT COL_NAME(fc.parent_object_id, fc.parent_column_id) as column_name, OBJECT_NAME(fc.referenced_object_id) as foreign_table_name, COL_NAME(fc.referenced_object_id, fc.referenced_column_id) as foreign_column_name FROM sys.foreign_key_columns fc WHERE OBJECT_NAME(fc.parent_object_id) = ''
        @ sq tn)
       (\<lambda>cells. case cellValue cells 0 of Inl e \<Rightarrow> Inl e | Inr a \<Rightarrow>
          (case cellValue cells 1 of Inl e \<Rightarrow> Inl e | Inr b \<Rightarrow>
             (case cellValue cells 2 of Inl e \<Rightarrow> Inl e | Inr c \<Rightarrow> Inr (foreignKeyOf a b c))))"

definition listSqliteForeignKeys :: "'d pool \<Rightarrow> string \<Rightarrow> (foreign_key list, 'd) act" where
  "listSqliteForeignKeys p tn =
     (let sql = ''PRAGMA foreign_key_list('' @ tn @ '')''
      in bnd (native (Prepare sql) (prepare p sql)) (\<lambda>stmt.
           bnd (native (StmtAll stmt) (stmtAll p stmt)) (\<lambda>rs.
             ret (map (\<lambda>r. foreignKeyOf (getProp r ''from'') (getProp r ''table'') (getProp r ''to'')) rs))))"

definition listForeignKeys :: "'d connection \<Rightarrow> string \<Rightarrow> (foreign_key list, 'd) act" where
  "listForeignKeys c tn =
     (let p = pool c; cfg = config c
      in case vendor c of
           Oracle \<Rightarrow> listOracleForeignKeys p tn (schema cfg)
         | Postgresql \<Rightarrow> listPostgresForeignKeys p tn (schema cfg)
         | Mysql \<Rightarrow> listMySqlForeignKeys p tn
         | Mariadb \<Rightarrow> listMySqlForeignKeys p tn
         | Sqlserver \<Rightarrow> listSqlServerForeignKeys p tn
         | Sqlite \<Rightarrow> listSqliteForeignKeys p tn
         | OtherVendor v \<Rightarrow> throw (unsupportedVendor (OtherVendor v)))"

section \<open>DatabaseService.healthCheck\<close>

record health =
  status :: string
  healthVendor :: vendor
  version :: val
  uptime :: nat
  activeConnections :: nat
  poolStats :: "(nat \<times> nat \<times> int) option"

definition readOutside :: "('d \<Rightarrow> 'a) \<Rightarrow> ('a, 'd) act" where
  "readOutside f w = (Inr (f (outside w)), w)"

definition orZero :: "nat option \<Rightarrow> nat" where
  "orZero n = (case n of None \<Rightarrow> 0 | Some k \<Rightarrow> k)"

definition firstRowOrThrow :: "row list \<Rightarrow> (row, 'd) act" where
  "firstRowOrThrow rs =
     (case rs of [] \<Rightarrow> throw (undefinedRead ''version'') | r # rest \<Rightarrow> ret r)"

definition oracleVersionSql :: string where
  "oracleVersionSql = ''SELECT * FROM v$version WHERE banner LIKE '' @ sq ''Oracle%''"

definition postgresVersionSql :: string where
  "postgresVersionSql = ''SELECT version()''"

definition mysqlVersionSql :: string where
  "mysqlVersionSql = ''SELECT VERSION() as version''"

definition sqliteVersionSql :: string where
  "sqliteVersionSql = ''SELECT sqlite_version() as version''"

text \<open>The \<open>switch\<close> inside the \<open>try\<close> block: it yields \<open>version\<close> and
  \<open>activeConnections\<close>. An unknown vendor tag matches no case. The version statement of
  the pool-leasing vendor is executed without options and \<open>rows[0]?.[0]\<close> reads the
  property \<open>0\<close> of the first row: a row delivered as an array is the row with the keys
  \<open>0\<close>, \<open>1\<close> and so on.\<close>

definition probe :: "'d connection \<Rightarrow> (val \<times> nat, 'd) act" where
  "probe c =
     (let p = pool c
      in case vendor c of
           Oracle \<Rightarrow>
             bnd (native GetConnection (getConnection p)) (\<lambda>oracleConn.
               bnd (native (Execute oracleConn oracleVersionSql [] [])
                      (execute p oracleConn oracleVersionSql [] [])) (\<lambda>result.
                    bnd (rowsOrThrow ''0'' result) (\<lambda>rs.
                      let first = (case rs of [] \<Rightarrow> VUndefined | r # rest \<Rightarrow> getProp r ''0'')
                      in bnd (readOutside (connectionsInUse p)) (\<lambda>inUse.
                           bnd (native (Close oracleConn) (close p oracleConn)) (\<lambda>u.
                             ret (if truthy first then first else VStr ''unknown'', orZero inUse))))))
         | Postgresql \<Rightarrow>
             bnd (native (PgQuery postgresVersionSql []) (pgQuery p postgresVersionSql [])) (\<lambda>pgResult.
               bnd (firstRowOrThrow (pgRows pgResult)) (\<lambda>r.
                 bnd (readOutside (totalCount p)) (\<lambda>total.
                   ret (getProp r ''version'', orZero total))))
         | Mysql \<Rightarrow>
             bnd (native (MyQuery mysqlVersionSql []) (myQuery p mysqlVersionSql [])) (\<lambda>res.
               bnd (firstRowOrThrow (case res of MySelect rs fs \<Rightarrow> rs | MyHeader a \<Rightarrow> [])) (\<lambda>r.
                 ret (getProp r ''version'', 0)))
         | Mariadb \<Rightarrow>
             bnd (native (MyQuery mysqlVersionSql []) (myQuery p mysqlVersionSql [])) (\<lambda>res.
               bnd (firstRowOrThrow (case res of MySelect rs fs \<Rightarrow> rs | MyHeader a \<Rightarrow> [])) (\<lambda>r.
                 ret (getProp r ''version'', 0)))
         | Sqlserver \<Rightarrow> ret (VStr ''SQL Server'', 0)
         | Sqlite \<Rightarrow>
             bnd (native (Prepare sqliteVersionSql) (prepare p sqliteVersionSql)) (\<lambda>stmt.
               bnd (native (StmtGet stmt) (stmtGet p stmt)) (\<lambda>sqliteResult.
                 case sqliteResult of
                   None \<Rightarrow> throw (undefinedRead ''version'')
                 | Some r \<Rightarrow> ret (VStr (''SQLite '' @ textOf (getProp r ''version'')), 1)))
         | OtherVendor v \<Rightarrow> ret (VStr ''unknown'', 0))"

definition healthy :: "'d connection \<Rightarrow> val \<times> nat \<Rightarrow> health" where
  "healthy c va =
     (let total = (case maxPoolSize (config c) of None \<Rightarrow> 10 | Some n \<Rightarrow> if n = 0 then 10 else n)
      in \<lparr>status = ''healthy'', healthVendor = vendor c, version = fst va, uptime = 0,
          activeConnections = snd va,
          poolStats = Some (total, snd va, int total - int (snd va))\<rparr>)"

definition unhealthy :: "'d connection \<Rightarrow> health" where
  "unhealthy c =
     \<lparr>status = ''unhealthy'', healthVendor = vendor c, version = VStr ''error'', uptime = 0,
      activeConnections = 0, poolStats = None\<rparr>"

definition healthCheck :: "'d connection \<Rightarrow> (health, 'd) act" where
  "healthCheck c =
     tryCatch (bnd (probe c) (\<lambda>va. ret (healthy c va))) (\<lambda>e. ret (unhealthy c))"

section \<open>DataMigrationService\<close>

text \<open>
  The batch loop of \<open>migrateTable\<close>,
  \<^verbatim>\<open>for (let i = 0; i < rows.length; i += batchSize)\<close>, does not end for every batch
  size, so it is a partial function: \<open>None\<close> stands for a call that never returns.
  \<open>rows.slice(i, i + batchSize)\<close> is \<open>take batchSize (drop i rows)\<close>. Batch sizes are
  natural numbers.
\<close>

partial_function (option) insertBatches ::
  "'d connection \<Rightarrow> string \<Rightarrow> row list \<Rightarrow> nat \<Rightarrow> nat \<Rightarrow> nat \<Rightarrow> 'd world
   \<Rightarrow> ((error + nat) \<times> 'd world) option" where
  "insertBatches target targetName rws batchSize i totalInserted w =
     (if i < length rws then
        (case insertBatch target targetName (take batchSize (drop i rws)) w of
           (Inl e, w1) \<Rightarrow> Some (Inl e, w1)
         | (Inr n, w1) \<Rightarrow>
             insertBatches target targetName rws batchSize (i + batchSize)
               (totalInserted + length (take batchSize (drop i rws))) w1)
      else Some (Inr totalInserted, w))"

record migrate_result =
  copied :: nat
  elapsed :: int

text \<open>\<open>migrateTable(tableName, targetTableName?, batchSize = 1000)\<close>; the field \<open>rows\<close>
  of its result is \<open>copied\<close>, the field \<open>time\<close> is \<open>elapsed\<close>.\<close>

definition migrateTable ::
  "'d connection \<Rightarrow> 'd connection \<Rightarrow> string \<Rightarrow> string option \<Rightarrow> nat option \<Rightarrow> 'd world
   \<Rightarrow> ((error + migrate_result) \<times> 'd world) option" where
  "migrateTable source target tn targetTableName batchSizeArg w =
     (let batchSize = (case batchSizeArg of None \<Rightarrow> 1000 | Some b \<Rightarrow> b);
          start = dateNow w;
          targetName = (if present targetTableName then the targetTableName else tn)
      in case describeTable source tn w of
           (Inl e, w1) \<Rightarrow> Some (Inl e, w1)
         | (Inr cols, w1) \<Rightarrow>
             (let colNames = map colName cols;
                  sql = ''SELECT '' @ joinStr '', '' (map joinText colNames) @ '' FROM '' @ tn
              in case executeQuery source sql (Some 100000) w1 of
                   (Inl e, w2) \<Rightarrow> Some (Inl e, w2)
                 | (Inr result, w2) \<Rightarrow>
                     if length (rows result) = 0
                     then Some (Inr \<lparr>copied = 0, elapsed = dateNow w2 - start\<rparr>, w2)
                     else (case insertBatches target targetName (rows result) batchSize 0 0 w2 of
                             None \<Rightarrow> None
                           | Some (Inl e, w3) \<Rightarrow> Some (Inl e, w3)
                           | Some (Inr totalInserted, w3) \<Rightarrow>
                               Some (Inr \<lparr>copied = totalInserted, elapsed = dateNow w3 - start\<rparr>, w3))))"

datatype report_entry =
    Success string nat int
  | Failure string string

text \<open>
  \<open>Success table rows time\<close> is the entry
  \<^verbatim>\<open>{ table, status: 'success', rows: res.rows, time: res.time }\<close> and
  \<open>Failure table error\<close> is \<^verbatim>\<open>{ table, status: 'error', error: e.message }\<close>.
\<close>

fun entryTable :: "report_entry \<Rightarrow> string" where
  "entryTable (Success t n ms) = t"
| "entryTable (Failure t m) = t"

fun entryStatus :: "report_entry \<Rightarrow> string" where
  "entryStatus (Success t n ms) = ''success''"
| "entryStatus (Failure t m) = ''error''"

fun migrateDataLoop ::
  "'d connection \<Rightarrow> 'd connection \<Rightarrow> string list \<Rightarrow> bool \<Rightarrow> report_entry list \<Rightarrow> 'd world
   \<Rightarrow> (report_entry list \<times> 'd world) option" where
  "migrateDataLoop source target [] truncateTarget results w = Some (results, w)"
| "migrateDataLoop source target (t # tables) truncateTarget results w =
     (case migrateTable source target t None None w of
        None \<Rightarrow> None
      | Some (Inr res, w1) \<Rightarrow>
          migrateDataLoop source target tables truncateTarget
            (results @ [Success t (copied res) (elapsed res)]) w1
      | Some (Inl e, w1) \<Rightarrow>
          migrateDataLoop source target tables truncateTarget
            (results @ [Failure t (message e)]) w1)"

definition migrateData ::
  "'d connection \<Rightarrow> 'd connection \<Rightarrow> string list \<Rightarrow> bool \<Rightarrow> 'd world
   \<Rightarrow> (report_entry list \<times> 'd world) option" where
  "migrateData source target tables truncateTarget w =
     migrateDataLoop source target tables truncateTarget [] w"

section \<open>The replicate\_database handler\<close>








section \<open>DatabaseService.analyzeProcedureTables\<close>

text \<open>
  The five regular expressions have one shape: one or two keywords, each followed by
  \<open>\s+\<close>, and the group \<open>([A-Z_][A-Z0-9_]*)\<close>, with the flags \<open>g\<close> and \<open>i\<close>. A pattern is
  the list of its keywords in upper case. \<open>matchHere\<close> matches a pattern at the start of
  a text and returns the captured identifier and the text after the match: \<open>\s+\<close> and
  the identifier are greedy, and giving back a character never helps, since the next
  item of the pattern cannot start with a character that the previous one accepts.
  With the flag \<open>i\<close> (and without \<open>u\<close>) a character of the text is compared through its
  upper case, and no character outside ASCII has an ASCII upper case.
\<close>

definition isSpace :: "char \<Rightarrow> bool" where
  "isSpace c = (of_char c \<in> {9, 10, 11, 12, 13, 32, 160 :: nat})"

definition isIdentStart :: "char \<Rightarrow> bool" where
  "isIdentStart c =
     (let u = (of_char (upperChar c) :: nat) in (65 \<le> u \<and> u \<le> 90) \<or> u = 95)"

definition isIdentChar :: "char \<Rightarrow> bool" where
  "isIdentChar c = (isIdentStart c \<or> (48 \<le> (of_char c :: nat) \<and> (of_char c :: nat) \<le> 57))"

fun matchKeyword :: "string \<Rightarrow> string \<Rightarrow> string option" where
  "matchKeyword [] s = Some s"
| "matchKeyword (k # ks) [] = None"
| "matchKeyword (k # ks) (c # cs) = (if upperChar c = k then matchKeyword ks cs else None)"

definition matchSpaces :: "string \<Rightarrow> string option" where
  "matchSpaces s = (if takeWhile isSpace s = [] then None else Some (dropWhile isSpace s))"

definition matchIdent :: "string \<Rightarrow> (string \<times> string) option" where
  "matchIdent s =
     (case s of
        [] \<Rightarrow> None
      | c # cs \<Rightarrow>
          if isIdentStart c then Some (c # takeWhile isIdentChar cs, dropWhile isIdentChar cs)
          else None)"

fun matchHere :: "string list \<Rightarrow> string \<Rightarrow> (string \<times> string) option" where
  "matchHere [] s = matchIdent s"
| "matchHere (k # ks) s =
     (case matchKeyword k s of
        None \<Rightarrow> None
      | Some r \<Rightarrow> (case matchSpaces r of None \<Rightarrow> None | Some r' \<Rightarrow> matchHere ks r'))"

lemma matchKeyword_length: "matchKeyword k s = Some r \<Longrightarrow> length r \<le> length s"
  by (induction k s rule: matchKeyword.induct) (auto split: if_splits)

lemma matchSpaces_length: "matchSpaces s = Some r \<Longrightarrow> length r < length s"
proof -
  assume a: "matchSpaces s = Some r"
  then have t: "takeWhile isSpace s \<noteq> []" and r: "r = dropWhile isSpace s"
    by (auto simp: matchSpaces_def split: if_splits)
  have "length (takeWhile isSpace s) + length (dropWhile isSpace s) = length s"
    by (metis length_append takeWhile_dropWhile_id)
  moreover have "0 < length (takeWhile isSpace s)"
    using t by simp
  ultimately have "length (dropWhile isSpace s) < length s"
    by linarith
  then show ?thesis
    by (simp add: r)
qed

lemma matchIdent_length: "matchIdent s = Some (c, r) \<Longrightarrow> length r < length s"
  by (auto simp: matchIdent_def split: list.splits if_splits
      intro: le_imp_less_Suc length_dropWhile_le)

lemma matchHere_length: "matchHere ks s = Some (c, r) \<Longrightarrow> length r < length s"
proof (induction ks arbitrary: s)
  case Nil
  then show ?case by (simp add: matchIdent_length)
next
  case (Cons k ks)
  then show ?case
    by (fastforce split: option.splits dest: matchKeyword_length matchSpaces_length)
qed

text \<open>The loop \<^verbatim>\<open>while ((match = pattern.exec(sourceCode)) !== null)\<close> of a global
  pattern: \<open>exec\<close> finds the first match at or after \<open>lastIndex\<close> and moves
  \<open>lastIndex\<close> to its end. \<open>scan\<close> returns the captured groups in this order.\<close>

function scan :: "string list \<Rightarrow> string \<Rightarrow> string list" where
  "scan ks [] = []"
| "scan ks (c # cs) =
     (case matchHere ks (c # cs) of
        Some (cap, rest) \<Rightarrow> cap # scan ks rest
      | None \<Rightarrow> scan ks cs)"
  by pat_completeness auto
termination
  by (relation "measure (\<lambda>(ks, s). length s)") (auto dest: matchHere_length)

definition patterns :: "(string \<times> string list) list" where
  "patterns =
     [(''select'', [''FROM'']),
      (''insert'', [''INSERT'', ''INTO'']),
      (''update'', [''UPDATE'']),
      (''delete'', [''DELETE'', ''FROM'']),
      (''merge'', [''MERGE'', ''INTO''])]"

text \<open>\<open>tableOps\<close> is a \<open>Map\<close> from table names to \<open>Set\<close>s of operations; both keep the
  order of insertion, so the map is an association list and a set is a list.\<close>

fun addOp :: "string \<Rightarrow> string \<Rightarrow> (string \<times> string list) list \<Rightarrow> (string \<times> string list) list" where
  "addOp t operation [] = [(t, [operation])]"
| "addOp t operation ((k, ops) # m) =
     (if k = t then (k, if operation \<in> set ops then ops else ops @ [operation]) # m
      else (k, ops) # addOp t operation m)"

definition recordMatches ::
  "string \<Rightarrow> string list \<Rightarrow> (string \<times> string list) list \<Rightarrow> (string \<times> string list) list" where
  "recordMatches operation caps tableOps =
     foldl (\<lambda>m cap. addOp (toUpperCase cap) (toUpperCase operation) m) tableOps caps"

definition analyzeProcedureTables :: "string \<Rightarrow> (string \<times> string list) list" where
  "analyzeProcedureTables sourceCode =
     foldl (\<lambda>tableOps (operation, pattern). recordMatches operation (scan pattern sourceCode) tableOps)
       [] patterns"

section \<open>Concrete drivers\<close>

text \<open>
  Drivers and worlds at which the theorems below are evaluated. The outside state is a
  number that these drivers never change; \<open>idlePool\<close> rejects every call, and the other
  pools answer a few calls.
\<close>

definition failing :: "'d \<Rightarrow> (error + 'a) \<times> 'd" where
  "failing d = (Inl (Error ''driver call failed''), d)"

definition idlePool :: "nat pool" where
  "idlePool =
     \<lparr>getConnection = failing,
      execute = (\<lambda>conn sql binds opts. failing),
      executeMany = (\<lambda>conn sql binds opts. failing),
      close = (\<lambda>conn. failing),
      connectionsInUse = (\<lambda>d. None),
      totalCount = (\<lambda>d. None),
      pgQuery = (\<lambda>sql vals. failing),
      myQuery = (\<lambda>sql vals. failing),
      prepare = (\<lambda>sql. failing),
      stmtAll = (\<lambda>stmt. failing),
      stmtGet = (\<lambda>stmt. failing),
      stmtRun = (\<lambda>stmt vals. failing),
      transaction = (\<lambda>t. failing),
      request = failing,
      requestQuery = (\<lambda>req sql. failing)\<rparr>"

definition connectionOn :: "vendor \<Rightarrow> nat pool \<Rightarrow> nat connection" where
  "connectionOn v p =
     \<lparr>connId = ''db'', vendor = v, pool = p, connectionString = [],
      config = \<lparr>schema = None, database = None, maxPoolSize = None\<rparr>\<rparr>"

definition world0 :: "nat world" where
  "world0 = \<lparr>trace = [], outside = 0, clock = (\<lambda>d. 0)\<rparr>"

lemma native_result:
  "native c f w = (r, w') \<Longrightarrow>
     f (outside w) = (r, outside w') \<and> trace w' = trace w @ [(c, \<not> isl r)] \<and> clock w' = clock w"
  by (auto simp: native_def split: prod.splits)

section \<open>Frame and binding properties of insertBatch\<close>

text \<open>
  Claim C9. For every table name and every vendor, \<open>insertBatch\<close> on an empty row list
  returns 0 at once: no statement is built, no connection is acquired, nothing is
  executed, and the world (the trace of native calls and the outside state) is the one
  it started from.
\<close>

theorem insertBatch_empty_no_effect: "insertBatch c tableName [] w = (Inr 0, w)"
  by (simp add: insertBatch_def ret_def)

text \<open>
  \<open>projectRow cols r\<close> is the row that has exactly the columns \<open>cols\<close>, in this order,
  each with the value \<open>r\<close> has for it: \<open>VUndefined\<close> where \<open>r\<close> has no such key. Keys of
  \<open>r\<close> outside \<open>cols\<close> are gone.
\<close>

definition projectRow :: "string list \<Rightarrow> row \<Rightarrow> row" where
  "projectRow cols r = map (\<lambda>c. (c, getProp r c)) cols"

lemma objectKeys_projectRow: "objectKeys (projectRow cols r) = cols"
  by (simp add: projectRow_def objectKeys_def comp_def)

lemma getProp_missing: "k \<notin> set (objectKeys r) \<Longrightarrow> getProp r k = VUndefined"
  by (simp add: getProp_def objectKeys_def map_of_eq_None_iff [THEN iffD2])
























section \<open>Occurrences and the result of analyzeProcedureTables\<close>

text \<open>
  A pattern occurs in a text at offset \<open>i\<close> with the captured identifier \<open>cap\<close> when it
  matches the text from \<open>i\<close> on; \<open>matchEnd\<close> is the offset behind that match.
\<close>

definition occursAt :: "string list \<Rightarrow> string \<Rightarrow> nat \<Rightarrow> string \<Rightarrow> bool" where
  "occursAt ks s i cap = (i < length s \<and> (case matchHere ks (drop i s) of None \<Rightarrow> False | Some (c, r) \<Rightarrow> c = cap))"

definition matchEnd :: "string list \<Rightarrow> string \<Rightarrow> nat \<Rightarrow> nat" where
  "matchEnd ks s i = (case matchHere ks (drop i s) of None \<Rightarrow> i | Some (c, r) \<Rightarrow> length s - length r)"

lemma matchKeyword_suffix: "matchKeyword k s = Some r \<Longrightarrow> \<exists>pre. s = pre @ r"
proof (induction k s rule: matchKeyword.induct)
  case (3 k ks c cs)
  then obtain pre where "cs = pre @ r" by (auto split: if_splits)
  then have "c # cs = (c # pre) @ r" by simp
  then show ?case by blast
qed auto

lemma matchSpaces_suffix: "matchSpaces s = Some r \<Longrightarrow> \<exists>pre. s = pre @ r"
  by (metis matchSpaces_def option.inject option.distinct(1) takeWhile_dropWhile_id)

lemma matchIdent_suffix: "matchIdent s = Some (c, r) \<Longrightarrow> \<exists>pre. s = pre @ r"
proof -
  assume a: "matchIdent s = Some (c, r)"
  then obtain x xs where s: "s = x # xs" and r: "r = dropWhile isIdentChar xs"
    by (auto simp: matchIdent_def split: list.splits if_splits)
  have "s = (x # takeWhile isIdentChar xs) @ r"
    by (simp add: s r)
  then show ?thesis by blast
qed

lemma matchHere_suffix: "matchHere ks s = Some (c, r) \<Longrightarrow> \<exists>pre. s = pre @ r"
proof (induction ks arbitrary: s)
  case Nil
  then show ?case by (simp add: matchIdent_suffix)
next
  case (Cons k ks)
  from Cons.prems obtain r1 r2 where k: "matchKeyword k s = Some r1"
    and sp: "matchSpaces r1 = Some r2" and h: "matchHere ks r2 = Some (c, r)"
    by (auto split: option.splits)
  from k obtain p1 where "s = p1 @ r1" using matchKeyword_suffix by blast
  moreover from sp obtain p2 where "r1 = p2 @ r2" using matchSpaces_suffix by blast
  moreover from Cons.IH [OF h] obtain p3 where "r2 = p3 @ r" by blast
  ultimately have "s = (p1 @ p2 @ p3) @ r" by simp
  then show ?case by blast
qed

lemma matchHere_drop:
  assumes "matchHere ks s = Some (c, r)"
  shows "r = drop (length s - length r) s" and "length r < length s"
proof -
  from assms obtain pre where "s = pre @ r" using matchHere_suffix by blast
  then show "r = drop (length s - length r) s" by simp
  show "length r < length s" using assms by (rule matchHere_length)
qed

lemma scan_sound: "cap \<in> set (scan ks s) \<Longrightarrow> \<exists>i. occursAt ks s i cap"
proof (induction ks s rule: scan.induct)
  case (1 ks)
  then show ?case by simp
next
  case (2 ks c cs)
  show ?case
  proof (cases "matchHere ks (c # cs)")
    case None
    with 2(3) have mem: "cap \<in> set (scan ks cs)" by simp
    have "\<exists>i. occursAt ks cs i cap"
      using 2(1,2) None mem by blast
    then obtain i where "occursAt ks cs i cap" ..
    then have "occursAt ks (c # cs) (Suc i) cap" by (simp add: occursAt_def)
    then show ?thesis by blast
  next
    case (Some a)
    then obtain cap0 rest where m: "matchHere ks (c # cs) = Some (cap0, rest)" by (cases a) auto
    show ?thesis
    proof (cases "cap = cap0")
      case True
      with m have "occursAt ks (c # cs) 0 cap" by (simp add: occursAt_def)
      then show ?thesis by blast
    next
      case False
      with 2(3) m have mem: "cap \<in> set (scan ks rest)" by simp
      have "\<exists>i. occursAt ks rest i cap"
        using 2(1,2) m mem by blast
      then obtain i where i: "occursAt ks rest i cap" ..
      let ?n = "length (c # cs) - length rest"
      have r: "rest = drop ?n (c # cs)" and l: "length rest < length (c # cs)"
        using matchHere_drop [OF m] by auto
      have "drop (?n + i) (c # cs) = drop i rest"
        by (metis r add.commute drop_drop)
      moreover have "?n + i < length (c # cs)" using i l by (auto simp: occursAt_def)
      ultimately have "occursAt ks (c # cs) (?n + i) cap"
        using i by (simp add: occursAt_def del: drop_Suc_Cons)
      then show ?thesis by blast
    qed
  qed
qed

lemma scan_complete:
  "occursAt ks s i cap \<Longrightarrow>
   cap \<in> set (scan ks s) \<or> (\<exists>j<i. matchHere ks (drop j s) \<noteq> None \<and> i < matchEnd ks s j)"
proof (induction ks s arbitrary: i rule: scan.induct)
  case (1 ks)
  then show ?case by (simp add: occursAt_def)
next
  case (2 ks c cs)
  show ?case
  proof (cases "matchHere ks (c # cs)")
    case None
    with "2.prems" obtain i' where i: "i = Suc i'" and o: "occursAt ks cs i' cap"
      by (cases i) (auto simp: occursAt_def)
    have "cap \<in> set (scan ks cs) \<or>
          (\<exists>j<i'. matchHere ks (drop j cs) \<noteq> None \<and> i' < matchEnd ks cs j)"
      using "2.IH" None o by blast
    then show ?thesis
    proof
      assume "cap \<in> set (scan ks cs)"
      then show ?thesis using None by simp
    next
      assume "\<exists>j<i'. matchHere ks (drop j cs) \<noteq> None \<and> i' < matchEnd ks cs j"
      then obtain j where j: "j < i'" and m: "matchHere ks (drop j cs) \<noteq> None"
        and e: "i' < matchEnd ks cs j" by blast
      from m obtain c' r where mr: "matchHere ks (drop j cs) = Some (c', r)" by auto
      have "length r < length (drop j cs)" using mr by (rule matchHere_length)
      then have "matchEnd ks (c # cs) (Suc j) = Suc (matchEnd ks cs j)"
        using mr by (simp add: matchEnd_def Suc_diff_le)
      with j m e i have "Suc j < i \<and> matchHere ks (drop (Suc j) (c # cs)) \<noteq> None
          \<and> i < matchEnd ks (c # cs) (Suc j)" by simp
      then show ?thesis by blast
    qed
  next
    case (Some a)
    then obtain cap0 rest where m: "matchHere ks (c # cs) = Some (cap0, rest)" by (cases a) auto
    let ?s = "c # cs"
    let ?n = "length ?s - length rest"
    have r: "rest = drop ?n ?s" and l: "length rest < length ?s"
      using matchHere_drop [OF m] by auto
    have sc: "scan ks ?s = cap0 # scan ks rest" using m by simp
    consider "i = 0" | "0 < i" "i < ?n" | "?n \<le> i" by linarith
    then show ?thesis
    proof cases
      case 1
      with "2.prems" m have "cap = cap0" by (simp add: occursAt_def)
      then show ?thesis using sc by simp
    next
      case 2
      have "matchHere ks (drop 0 ?s) \<noteq> None \<and> i < matchEnd ks ?s 0"
        using m 2 by (simp add: matchEnd_def)
      then show ?thesis using 2(1) by blast
    next
      case 3
      define i' where "i' = i - ?n"
      have di: "drop i ?s = drop i' rest"
        by (metis r 3 i'_def drop_drop le_add_diff_inverse2)
      have il: "i' < length rest" using "2.prems" 3 l by (auto simp: occursAt_def i'_def)
      have o: "occursAt ks rest i' cap"
        using "2.prems" di il by (simp add: occursAt_def del: drop_Suc_Cons)
      have "cap \<in> set (scan ks rest) \<or>
            (\<exists>j<i'. matchHere ks (drop j rest) \<noteq> None \<and> i' < matchEnd ks rest j)"
        using "2.IH" m o by blast
      then show ?thesis
      proof
        assume "cap \<in> set (scan ks rest)"
        then show ?thesis using sc by simp
      next
        assume "\<exists>j<i'. matchHere ks (drop j rest) \<noteq> None \<and> i' < matchEnd ks rest j"
        then obtain j where j: "j < i'" and mj: "matchHere ks (drop j rest) \<noteq> None"
          and e: "i' < matchEnd ks rest j" by blast
        have dj: "drop (?n + j) ?s = drop j rest"
          by (metis r add.commute drop_drop)
        from mj obtain c' r' where mr: "matchHere ks (drop j rest) = Some (c', r')" by auto
        have "length r' < length (drop j rest)" using mr by (rule matchHere_length)
        then have lr: "length r' < length rest" by simp
        have "matchEnd ks ?s (?n + j) = length ?s - length r'"
          using mr dj by (simp add: matchEnd_def del: drop_Suc_Cons)
        moreover have "matchEnd ks rest j = length rest - length r'"
          using mr by (simp add: matchEnd_def)
        ultimately have "i < matchEnd ks ?s (?n + j)"
          using e lr l 3 unfolding i'_def by linarith
        moreover have "?n + j < i" using j 3 unfolding i'_def by linarith
        moreover have "matchHere ks (drop (?n + j) ?s) \<noteq> None" using mj dj by (simp del: drop_Suc_Cons)
        ultimately show ?thesis by blast
      qed
    qed
  qed
qed

text \<open>The operations recorded for a table, as a set, and the shape every value of
  \<open>tableOps\<close> has: no table twice, no operation twice, no table without operation.\<close>

definition opsOf :: "(string \<times> string list) list \<Rightarrow> string \<Rightarrow> string set" where
  "opsOf m t = (case map_of m t of None \<Rightarrow> {} | Some ops \<Rightarrow> set ops)"

definition wellFormed :: "(string \<times> string list) list \<Rightarrow> bool" where
  "wellFormed m = (distinct (map fst m) \<and> list_all (\<lambda>e. snd e \<noteq> [] \<and> distinct (snd e)) m)"

lemma map_of_addOp:
  "map_of (addOp t operation m) t' =
     (if t' = t
      then Some (case map_of m t of None \<Rightarrow> [operation]
                 | Some ops \<Rightarrow> if operation \<in> set ops then ops else ops @ [operation])
      else map_of m t')"
  by (induction m) auto

lemma opsOf_addOp:
  "opsOf (addOp t operation m) t' = (if t' = t then insert operation (opsOf m t) else opsOf m t')"
  by (auto simp: opsOf_def map_of_addOp split: option.splits)

lemma keys_addOp:
  "map fst (addOp t operation m) =
     (if t \<in> set (map fst m) then map fst m else map fst m @ [t])"
  by (induction m) force+

lemma entries_addOp:
  "list_all (\<lambda>e. snd e \<noteq> [] \<and> distinct (snd e)) m \<Longrightarrow>
   list_all (\<lambda>e. snd e \<noteq> [] \<and> distinct (snd e)) (addOp t operation m)"
  by (induction m) auto

lemma wellFormed_addOp: "wellFormed m \<Longrightarrow> wellFormed (addOp t operation m)"
  by (auto simp: wellFormed_def keys_addOp entries_addOp)

lemma wellFormed_recordMatches: "wellFormed m \<Longrightarrow> wellFormed (recordMatches operation caps m)"
  unfolding recordMatches_def
  by (induction caps arbitrary: m) (simp_all add: wellFormed_addOp)

lemma opsOf_recordMatches:
  "opsOf (recordMatches operation caps m) t =
     opsOf m t \<union> (if t \<in> toUpperCase ` set caps then {toUpperCase operation} else {})"
  unfolding recordMatches_def
  by (induction caps arbitrary: m) (auto simp: opsOf_addOp)

text \<open>The outer loop of \<open>analyzeProcedureTables\<close> from any map and over any list of
  patterns, for the induction.\<close>

definition analyzeFrom ::
  "string \<Rightarrow> (string \<times> string list) list \<Rightarrow> (string \<times> string list) list \<Rightarrow> (string \<times> string list) list" where
  "analyzeFrom src m ps =
     foldl (\<lambda>tableOps (operation, pattern). recordMatches operation (scan pattern src) tableOps) m ps"

lemma wellFormed_analyzeFrom: "wellFormed m \<Longrightarrow> wellFormed (analyzeFrom src m ps)"
  unfolding analyzeFrom_def
  by (induction ps arbitrary: m) (auto simp: wellFormed_recordMatches)

lemma opsOf_analyzeFrom:
  "opsOf (analyzeFrom src m ps) t =
     opsOf m t \<union> {toUpperCase kind |kind ks. (kind, ks) \<in> set ps \<and> t \<in> toUpperCase ` set (scan ks src)}"
  unfolding analyzeFrom_def
proof (induction ps arbitrary: m)
  case Nil
  then show ?case by simp
next
  case (Cons p ps)
  obtain kind ks where p: "p = (kind, ks)" by (cases p)
  show ?case
    by (simp add: Cons.IH p opsOf_recordMatches) blast
qed

lemma wellFormed_analyze: "wellFormed (analyzeProcedureTables src)"
  using wellFormed_analyzeFrom [of "[]" src patterns]
  by (simp add: analyzeProcedureTables_def analyzeFrom_def wellFormed_def)

lemma opsOf_analyze:
  "opsOf (analyzeProcedureTables src) t =
     {toUpperCase kind |kind ks. (kind, ks) \<in> set patterns \<and> t \<in> toUpperCase ` set (scan ks src)}"
  using opsOf_analyzeFrom [of src "[]" patterns t]
  by (simp add: analyzeProcedureTables_def analyzeFrom_def opsOf_def)

lemma entry_opsOf:
  "wellFormed m \<Longrightarrow> (t, ops) \<in> set m \<Longrightarrow> opsOf m t = set ops \<and> ops \<noteq> [] \<and> distinct ops"
  by (auto simp: wellFormed_def opsOf_def list_all_iff)

lemma opsOf_entry:
  "wellFormed m \<Longrightarrow> x \<in> opsOf m t \<Longrightarrow> \<exists>ops. (t, ops) \<in> set m \<and> x \<in> set ops"
  by (auto simp: opsOf_def split: option.splits dest: map_of_SomeD)

text \<open>
  Claim C8. \<open>analyzeProcedureTables\<close> maps each table named after an occurrence of
  FROM, INSERT INTO, UPDATE, DELETE FROM or MERGE INTO (in any letter case) to the set of
  the operation kinds, in upper case, seen for it in the whole text. Occurrences are the
  successive matches of the global patterns, as \<open>scan\<close> finds them from left to right:
  \<^item> for the text of the example the result is CUSTOMERS with SELECT, then ORDERS with
    INSERT;
  \<^item> no table is listed twice; an entry has at least one operation and none twice, and
    its operations are exactly the kinds whose pattern captured an identifier with this
    upper case;
  \<^item> every captured identifier has an entry holding the kind of its pattern;
  \<^item> every captured identifier is an occurrence of its pattern in the text, and an
    occurrence is captured unless it starts inside an earlier match of the same pattern.
\<close>

theorem analyzeProcedureTables_tables_operations:
  "analyzeProcedureTables ''INSERT INTO ORDERS (...) SELECT * FROM CUSTOMERS'' =
     [(''CUSTOMERS'', [''SELECT'']), (''ORDERS'', [''INSERT''])]
   \<and> distinct (map fst (analyzeProcedureTables src))
   \<and> (\<forall>t ops. (t, ops) \<in> set (analyzeProcedureTables src) \<longrightarrow>
          ops \<noteq> [] \<and> distinct ops \<and>
          set ops = {toUpperCase kind |kind ks.
                       (kind, ks) \<in> set patterns \<and> t \<in> toUpperCase ` set (scan ks src)})
   \<and> (\<forall>kind ks cap. (kind, ks) \<in> set patterns \<and> cap \<in> set (scan ks src) \<longrightarrow>
          (\<exists>ops. (toUpperCase cap, ops) \<in> set (analyzeProcedureTables src)
                 \<and> toUpperCase kind \<in> set ops))
   \<and> (\<forall>ks cap. cap \<in> set (scan ks src) \<longrightarrow> (\<exists>i. occursAt ks src i cap))
   \<and> (\<forall>ks i cap. occursAt ks src i cap \<longrightarrow>
          cap \<in> set (scan ks src)
          \<or> (\<exists>j<i. matchHere ks (drop j src) \<noteq> None \<and> i < matchEnd ks src j))"
proof -
  have ex: "analyzeProcedureTables ''INSERT INTO ORDERS (...) SELECT * FROM CUSTOMERS'' =
     [(''CUSTOMERS'', [''SELECT'']), (''ORDERS'', [''INSERT''])]"
    by code_simp
  have wf: "wellFormed (analyzeProcedureTables src)"
    by (rule wellFormed_analyze)
  have d: "distinct (map fst (analyzeProcedureTables src))"
    using wf by (simp add: wellFormed_def)
  have e: "ops \<noteq> [] \<and> distinct ops \<and>
          set ops = {toUpperCase kind |kind ks.
                       (kind, ks) \<in> set patterns \<and> t \<in> toUpperCase ` set (scan ks src)}"
    if "(t, ops) \<in> set (analyzeProcedureTables src)" for t ops
    using entry_opsOf [OF wf that] opsOf_analyze [of src t] by simp
  have c: "\<exists>ops. (toUpperCase cap, ops) \<in> set (analyzeProcedureTables src)
                 \<and> toUpperCase kind \<in> set ops"
    if "(kind, ks) \<in> set patterns \<and> cap \<in> set (scan ks src)" for kind ks cap
  proof -
    have "toUpperCase kind \<in> opsOf (analyzeProcedureTables src) (toUpperCase cap)"
      using that unfolding opsOf_analyze by blast
    then show ?thesis
      using opsOf_entry [OF wf] by blast
  qed
  from ex d e c scan_sound scan_complete show ?thesis
    by blast
qed

theorem analyzeProcedureTables_delete_witness:
  "\<exists>ops. (''T1'', ops) \<in> set (analyzeProcedureTables ''delete from t1'')
         \<and> ''DELETE'' \<in> set ops \<and> ''SELECT'' \<in> set ops"
proof -
  let ?src = "''delete from t1''"
  have p: "(''delete'', [''DELETE'', ''FROM'']) \<in> set patterns"
          "(''select'', [''FROM'']) \<in> set patterns"
    by (simp_all add: patterns_def)
  have s: "''t1'' \<in> set (scan [''DELETE'', ''FROM''] ?src)"
          "''t1'' \<in> set (scan [''FROM''] ?src)"
    by code_simp+
  have u: "toUpperCase ''t1'' = ''T1''" "toUpperCase ''delete'' = ''DELETE''"
          "toUpperCase ''select'' = ''SELECT''"
    by code_simp+
  have a: "\<exists>ops. (toUpperCase ''t1'', ops) \<in> set (analyzeProcedureTables ?src)
                 \<and> toUpperCase ''delete'' \<in> set ops"
    using analyzeProcedureTables_tables_operations [of ?src] p(1) s(1) by blast
  have b: "\<exists>ops. (toUpperCase ''t1'', ops) \<in> set (analyzeProcedureTables ?src)
                 \<and> toUpperCase ''select'' \<in> set ops"
    using analyzeProcedureTables_tables_operations [of ?src] p(2) s(2) by blast
  have dd: "distinct (map fst (analyzeProcedureTables ?src))"
    using analyzeProcedureTables_tables_operations [of ?src] by blast
  from a b dd show ?thesis
    unfolding u by (metis eq_key_imp_eq_value)
qed

section \<open>healthCheck never throws\<close>

text \<open>
  A driver delivers the version when each successful version query has the result the
  statement asks for: a row list for the pool-leasing driver, a first row for the
  promise-style drivers, a row for the embedded driver.
\<close>

definition deliversVersion :: "'d pool \<Rightarrow> bool" where
  "deliversVersion p =
     ((\<forall>conn d res d'. execute p conn oracleVersionSql [] [] d = (Inr res, d')
          \<longrightarrow> oraRows res \<noteq> None)
      \<and> (\<forall>d res d'. pgQuery p postgresVersionSql [] d = (Inr res, d') \<longrightarrow> pgRows res \<noteq> [])
      \<and> (\<forall>d res d'. myQuery p mysqlVersionSql [] d = (Inr res, d')
            \<longrightarrow> (\<exists>r rs fs. res = MySelect (r # rs) fs))
      \<and> (\<forall>stmt d res d'. stmtGet p stmt d = (Inr res, d') \<longrightarrow> res \<noteq> None))"

lemma deliversVersion_oracle:
  "deliversVersion p \<Longrightarrow> execute p conn oracleVersionSql [] [] d = (Inr res, d')
   \<Longrightarrow> oraRows res = None \<Longrightarrow> False"
  unfolding deliversVersion_def by blast

lemma deliversVersion_postgres:
  "deliversVersion p \<Longrightarrow> pgQuery p postgresVersionSql [] d = (Inr res, d')
   \<Longrightarrow> pgRows res = [] \<Longrightarrow> False"
  unfolding deliversVersion_def by blast

lemma deliversVersion_mysql:
  "deliversVersion p \<Longrightarrow> myQuery p mysqlVersionSql [] d = (Inr res, d') \<Longrightarrow>
     \<exists>r rs fs. res = MySelect (r # rs) fs"
  unfolding deliversVersion_def by blast

lemma deliversVersion_sqlite:
  "deliversVersion p \<Longrightarrow> stmtGet p stmt d = (Inr None, d') \<Longrightarrow> False"
  unfolding deliversVersion_def by blast

text \<open>The \<open>try\<close> block: it fails when a native call of it fails, and it succeeds when
  all of them succeed and the driver delivers the version.\<close>

lemma probe_trace:
  assumes "probe c w = (r, w')"
  shows "\<exists>evs. trace w' = trace w @ evs
          \<and> ((\<exists>ev\<in>set evs. \<not> snd ev) \<longrightarrow> isl r)
          \<and> (deliversVersion (pool c) \<and> (\<forall>ev\<in>set evs. snd ev) \<longrightarrow> \<not> isl r)"
proof (cases "vendor c")
  case Oracle
  with assms show ?thesis
    apply (simp add: probe_def bnd_def Let_def ret_def throw_def rowsOrThrow_def
        readOutside_def split: prod.splits sum.splits option.splits)
    apply (auto dest!: native_result dest: deliversVersion_oracle)
    done
next
  case Postgresql
  with assms show ?thesis
    apply (simp add: probe_def bnd_def Let_def ret_def throw_def firstRowOrThrow_def
        readOutside_def split: prod.splits sum.splits option.splits list.splits)
    apply (auto dest!: native_result dest: deliversVersion_postgres)
    done
next
  case Mysql
  with assms show ?thesis
    apply (simp add: probe_def bnd_def Let_def ret_def throw_def firstRowOrThrow_def
        split: prod.splits sum.splits option.splits list.splits my_result.splits)
    apply (auto dest!: native_result dest: deliversVersion_mysql)
    done
next
  case Mariadb
  with assms show ?thesis
    apply (simp add: probe_def bnd_def Let_def ret_def throw_def firstRowOrThrow_def
        split: prod.splits sum.splits option.splits list.splits my_result.splits)
    apply (auto dest!: native_result dest: deliversVersion_mysql)
    done
next
  case Sqlserver
  with assms show ?thesis
    by (auto simp add: probe_def ret_def)
next
  case Sqlite
  with assms show ?thesis
    apply (simp add: probe_def bnd_def Let_def ret_def throw_def
        split: prod.splits sum.splits option.splits list.splits)
    apply (auto dest!: native_result dest: deliversVersion_sqlite)
    done
next
  case (OtherVendor x)
  with assms show ?thesis
    by (auto simp add: probe_def ret_def)
qed

text \<open>
  Claim C3, as amended. For every vendor and every connection handle \<open>healthCheck\<close> never
  throws: it returns a result \<open>h\<close> whose status is healthy or unhealthy. With \<open>evs\<close> the
  native calls it made: when one of them failed the status is unhealthy, and when every
  one of them succeeded and the driver delivers the version (each successful version
  query carries its row), the status is healthy.
\<close>

theorem healthCheck_never_throws:
  "\<exists>h w' evs. healthCheck c w = (Inr h, w') \<and> trace w' = trace w @ evs
      \<and> (status h = ''healthy'' \<or> status h = ''unhealthy'')
      \<and> ((\<exists>ev\<in>set evs. \<not> snd ev) \<longrightarrow> status h = ''unhealthy'')
      \<and> (deliversVersion (pool c) \<and> (\<forall>ev\<in>set evs. snd ev) \<longrightarrow> status h = ''healthy'')"
proof -
  obtain r w' where p: "probe c w = (r, w')" by (cases "probe c w")
  from probe_trace [OF p] obtain evs where t: "trace w' = trace w @ evs"
    and f: "(\<exists>ev\<in>set evs. \<not> snd ev) \<longrightarrow> isl r"
    and g: "deliversVersion (pool c) \<and> (\<forall>ev\<in>set evs. snd ev) \<longrightarrow> \<not> isl r"
    by blast
  show ?thesis
  proof (cases r)
    case (Inl e)
    with p have "healthCheck c w = (Inr (unhealthy c), w')"
      by (simp add: healthCheck_def tryCatch_def bnd_def ret_def)
    moreover have "status (unhealthy c) = ''unhealthy''"
      by (simp add: unhealthy_def)
    ultimately show ?thesis using t g Inl by auto
  next
    case (Inr va)
    with p have "healthCheck c w = (Inr (healthy c va), w')"
      by (simp add: healthCheck_def tryCatch_def bnd_def ret_def)
    moreover have "status (healthy c va) = ''healthy''"
      by (simp add: healthy_def Let_def)
    ultimately show ?thesis using t f Inr by auto
  qed
qed

text \<open>
  The claim as stated, with the status healthy whenever every native call succeeds,
  fails: the version is read from the first row of the answer without a guard, and an
  answer without rows makes this read throw inside the \<open>try\<close> block. On a pool whose
  version query succeeds with no row, the one native call succeeds and the status is
  unhealthy.
\<close>

definition emptyAnswerPool :: "nat pool" where
  "emptyAnswerPool =
     idlePool\<lparr>pgQuery := (\<lambda>sql vals d.
        (Inr \<lparr>pgFields = [''version''], pgRows = [], pgRowCount = Some 0\<rparr>, d))\<rparr>"

theorem healthCheck_empty_answer_counterexample:
  "healthCheck (connectionOn Postgresql emptyAnswerPool) world0 =
     (Inr (unhealthy (connectionOn Postgresql emptyAnswerPool)),
      world0\<lparr>trace := [(PgQuery postgresVersionSql [], True)]\<rparr>)
   \<and> status (unhealthy (connectionOn Postgresql emptyAnswerPool)) = ''unhealthy''
   \<and> list_all snd [(PgQuery postgresVersionSql [], True)]"
  by (simp add: healthCheck_def probe_def connectionOn_def emptyAnswerPool_def idlePool_def
      tryCatch_def bnd_def ret_def throw_def native_def world0_def firstRowOrThrow_def
      unhealthy_def)

text \<open>A pool whose version query answers with one row.\<close>

definition versionPool :: "nat pool" where
  "versionPool =
     idlePool\<lparr>pgQuery := (\<lambda>sql vals d.
        (Inr \<lparr>pgFields = [''version''], pgRows = [[(''version'', VStr ''PostgreSQL 16'')]],
              pgRowCount = Some 1\<rparr>, d))\<rparr>"

lemma deliversVersion_versionPool: "deliversVersion versionPool"
  by (auto simp: deliversVersion_def versionPool_def idlePool_def failing_def)

lemma healthCheck_versionPool:
  "healthCheck (connectionOn Postgresql versionPool) world0 =
     (Inr (healthy (connectionOn Postgresql versionPool) (VStr ''PostgreSQL 16'', 0)),
      world0\<lparr>trace := [(PgQuery postgresVersionSql [], True)]\<rparr>)"
  by (simp add: healthCheck_def probe_def connectionOn_def versionPool_def idlePool_def
      tryCatch_def bnd_def ret_def native_def world0_def firstRowOrThrow_def readOutside_def
      orZero_def getProp_def)

theorem healthCheck_healthy_witness:
  "\<exists>h w'. healthCheck (connectionOn Postgresql versionPool) world0 = (Inr h, w')
       \<and> trace w' = [(PgQuery postgresVersionSql [], True)] \<and> status h = ''healthy''"
proof -
  let ?c = "connectionOn Postgresql versionPool"
  from healthCheck_never_throws [of ?c world0]
  obtain h w' evs where r: "healthCheck ?c world0 = (Inr h, w')"
    and t: "trace w' = trace world0 @ evs"
    and g: "deliversVersion (pool ?c) \<and> (\<forall>ev\<in>set evs. snd ev) \<longrightarrow> status h = ''healthy''"
    by blast
  from r have w: "w' = world0\<lparr>trace := [(PgQuery postgresVersionSql [], True)]\<rparr>"
    by (simp add: healthCheck_versionPool)
  with t have e: "evs = [(PgQuery postgresVersionSql [], True)]"
    by (simp add: world0_def)
  have "deliversVersion (pool ?c)"
    by (simp add: connectionOn_def deliversVersion_versionPool)
  with g e have "status h = ''healthy''" by simp
  with r w show ?thesis by simp
qed

section \<open>Release of leased connections\<close>

text \<open>
  The lease of the pool-leasing vendor is written the same way in \<open>executeOracleQuery\<close>,
  \<open>listOracleTables\<close>, the select behind \<open>describeOracleTable\<close>,
  \<open>listOraclePrimaryKeys\<close> and \<open>listOracleForeignKeys\<close>, and in \<open>insertBatch\<close>:
  \<open>getConnection\<close>, then a \<open>try\<close> whose \<open>finally\<close> closes the connection. Whatever the
  body does, the last native call of such an operation is the \<open>close\<close> of the leased
  connection.
\<close>

lemma lease_released:
  assumes g: "getConnection p (outside w) = (Inr conn, d)"
    and r: "bnd (native GetConnection (getConnection p))
              (\<lambda>conn. tryFinally (body conn) (native (Close conn) (close p conn))) w = (r, w')"
  shows "\<exists>ok. last (trace w') = (Close conn, ok)"
proof -
  let ?w1 = "w\<lparr>trace := trace w @ [(GetConnection, True)], outside := d\<rparr>"
  obtain rb wb where b: "body conn ?w1 = (rb, wb)" by (cases "body conn ?w1")
  from r have "tryFinally (body conn) (native (Close conn) (close p conn)) ?w1 = (r, w')"
    using g by (simp add: bnd_def native_def)
  with b show ?thesis
    by (auto simp add: tryFinally_native [of "body conn" ?w1 rb wb] split: prod.splits sum.splits)
qed

lemma lease_released_world:
  assumes g: "getConnection p (outside w) = (Inr conn, d)"
  shows "\<exists>ok. last (trace (snd (bnd (native GetConnection (getConnection p))
              (\<lambda>conn. tryFinally (body conn) (native (Close conn) (close p conn))) w))) = (Close conn, ok)"
proof -
  let ?m = "bnd (native GetConnection (getConnection p))
              (\<lambda>conn. tryFinally (body conn) (native (Close conn) (close p conn)))"
  obtain r w' where m: "?m w = (r, w')" by (cases "?m w")
  from lease_released [OF g m] show ?thesis by (simp add: m)
qed

lemma bnd_ret_world: "snd (bnd m (\<lambda>x. ret (f x)) w) = snd (m w)"
  by (simp add: bnd_def ret_def split: prod.splits sum.splits)

lemma tryCatch_throw_world: "snd (tryCatch m (\<lambda>e. throw (g e)) w) = snd (m w)"
  by (simp add: tryCatch_def throw_def split: prod.splits sum.splits)

lemma executeOracleQuery_releases:
  assumes "getConnection p (outside w) = (Inr conn, d)"
    and "executeOracleQuery p sql maxRows w = (r, w')"
  shows "\<exists>ok. last (trace w') = (Close conn, ok)"
  using assms unfolding executeOracleQuery_def by (rule lease_released)

lemma executeQuery_releases:
  assumes v: "vendor c = Oracle"
    and g: "getConnection (pool c) (outside w) = (Inr conn, d)"
    and r: "executeQuery c sql maxRowsArg w = (r, w')"
  shows "\<exists>ok. last (trace w') = (Close conn, ok)"
proof -
  let ?n = "case maxRowsArg of None \<Rightarrow> 100 | Some n \<Rightarrow> n"
  obtain r1 w1 where e: "executeOracleQuery (pool c) sql ?n w = (r1, w1)"
    by (cases "executeOracleQuery (pool c) sql ?n w")
  from r v have "w' = snd (executeOracleQuery (pool c) sql ?n w)"
    using tryCatch_throw_world [of "executeOracleQuery (pool c) sql ?n" "\<lambda>e. Error (''Error ejecutando query: '' @ message e)" w]
    by (simp add: executeQuery_def Let_def)
  with e have "w' = w1" by simp
  with executeOracleQuery_releases [OF g e] show ?thesis by simp
qed

lemma oracleSelect_releases:
  assumes "getConnection p (outside w) = (Inr conn, d)"
    and "oracleSelect p sql binds w = (r, w')"
  shows "\<exists>ok. last (trace w') = (Close conn, ok)"
  using assms unfolding oracleSelect_def by (rule lease_released)

lemma listOracleTables_releases:
  assumes "getConnection p (outside w) = (Inr conn, d)"
    and "listOracleTables p schm w = (r, w')"
  shows "\<exists>ok. last (trace w') = (Close conn, ok)"
  using assms unfolding listOracleTables_def by (rule lease_released)

lemma describeOracleTable_releases:
  assumes g: "getConnection p (outside w) = (Inr conn, d)"
    and r: "describeOracleTable p tn schm w = (r, w')"
  shows "\<exists>ok. last (trace w') = (Close conn, ok)"
proof -
  from r have "w' = snd (describeOracleTable p tn schm w)" by simp
  then obtain sql where "w' = snd (oracleSelect p sql (oracleBinds tn schm) w)"
    unfolding describeOracleTable_def bnd_ret_world by blast
  then obtain r1 where "oracleSelect p sql (oracleBinds tn schm) w = (r1, w')"
    by (cases "oracleSelect p sql (oracleBinds tn schm) w") simp
  with g show ?thesis by (rule oracleSelect_releases)
qed

lemma listOraclePrimaryKeys_releases:
  assumes g: "getConnection p (outside w) = (Inr conn, d)"
    and r: "listOraclePrimaryKeys p tn schm w = (r, w')"
  shows "\<exists>ok. last (trace w') = (Close conn, ok)"
proof -
  from r have "w' = snd (listOraclePrimaryKeys p tn schm w)" by simp
  then obtain sql where "w' = snd (oracleSelect p sql (oracleBinds tn schm) w)"
    unfolding listOraclePrimaryKeys_def bnd_ret_world by blast
  then obtain r1 where "oracleSelect p sql (oracleBinds tn schm) w = (r1, w')"
    by (cases "oracleSelect p sql (oracleBinds tn schm) w") simp
  with g show ?thesis by (rule oracleSelect_releases)
qed

lemma listOracleForeignKeys_releases:
  assumes g: "getConnection p (outside w) = (Inr conn, d)"
    and r: "listOracleForeignKeys p tn schm w = (r, w')"
  shows "\<exists>ok. last (trace w') = (Close conn, ok)"
proof -
  from r have "w' = snd (listOracleForeignKeys p tn schm w)" by simp
  then obtain sql where "w' = snd (oracleSelect p sql (oracleBinds tn schm) w)"
    unfolding listOracleForeignKeys_def bnd_ret_world by blast
  then obtain r1 where "oracleSelect p sql (oracleBinds tn schm) w = (r1, w')"
    by (cases "oracleSelect p sql (oracleBinds tn schm) w") simp
  with g show ?thesis by (rule oracleSelect_releases)
qed

lemma tryCatch_rethrow_world: "snd (tryCatch m (\<lambda>e. throw e) w) = snd (m w)"
  by (simp add: tryCatch_def throw_def split: prod.splits sum.splits)

lemma insertBatch_releases:
  assumes v: "vendor c = Oracle" and ne: "rws \<noteq> []"
    and g: "getConnection (pool c) (outside w) = (Inr conn, d)"
    and r: "insertBatch c tableName rws w = (r, w')"
  shows "\<exists>ok. last (trace w') = (Close conn, ok)"
proof -
  from ne obtain r0 rest where rws: "rws = r0 # rest" by (cases rws) auto
  have "\<exists>ok. last (trace (snd (insertBatch c tableName (r0 # rest) w))) = (Close conn, ok)"
    apply (simp only: insertBatch_def list.case Let_def v simp_thms if_True tryCatch_rethrow_world)
    apply (rule lease_released_world [OF g])
    done
  with r rws show ?thesis by simp
qed

text \<open>A pool that leases connection 1 and closes it, and rejects every statement.\<close>

definition leakyPool :: "nat pool" where
  "leakyPool = idlePool\<lparr>getConnection := (\<lambda>d. (Inr 1, d)), close := (\<lambda>conn d. (Inr (), d))\<rparr>"

text \<open>
  Claim C2. Every operation on the pool-leasing vendor releases the connection it
  acquired before it returns, on every path. \<open>healthCheck\<close> does not: on a pool that leases
  a connection and then rejects the version query, it returns the unhealthy result after
  two native calls, the lease and the failed statement, and \<open>close\<close> is never called.
\<close>

theorem healthCheck_leaves_connection_open:
  "healthCheck (connectionOn Oracle leakyPool) world0 =
     (Inr (unhealthy (connectionOn Oracle leakyPool)),
      world0\<lparr>trace := [(GetConnection, True), (Execute 1 oracleVersionSql [] [], False)]\<rparr>)"
  by (simp add: healthCheck_def probe_def connectionOn_def leakyPool_def idlePool_def
      tryCatch_def bnd_def ret_def native_def world0_def failing_def)

text \<open>On the same pool \<open>executeQuery\<close>, whose lease is inside \<open>try\<close> and \<open>finally\<close>, closes
  the connection although the statement fails.\<close>

lemma executeQuery_closes_connection:
  "executeQuery (connectionOn Oracle leakyPool) ''SELECT 1 FROM DUAL'' None world0 =
     (Inl (Error ''Error ejecutando query: driver call failed''),
      world0\<lparr>trace := [(GetConnection, True),
         (Execute 1 ''SELECT 1 FROM DUAL'' [] [(''maxRows'', VNum 100), (''outFormat'', VNum 4002)], False),
         (Close 1, True)]\<rparr>)"
  by (simp add: executeQuery_def executeOracleQuery_def connectionOn_def leakyPool_def idlePool_def
      tryCatch_def tryFinally_def bnd_def ret_def throw_def native_def world0_def failing_def Let_def)

section \<open>The fallback of listOracleTables\<close>
























section \<open>The row cap of executeQuery\<close>









text \<open>
  The cap is applied by the database: the code appends the clause to the statement, or
  passes the option, and returns the rows that the driver delivers. A database applies
  the cap \<open>n\<close> to a statement \<open>sql\<close> when it answers the text \<open>sql LIMIT n\<close> with at most
  \<open>n\<close> rows and an execution of \<open>sql\<close> under the option \<open>maxRows\<close> of \<open>n\<close> with at most \<open>n\<close>
  rows. It is for the caller to pass a statement that the clause can follow.
\<close>

definition appliesCap :: "'d pool \<Rightarrow> string \<Rightarrow> nat \<Rightarrow> bool" where
  "appliesCap p sql n =
     ((\<forall>vals d res d'. pgQuery p (sql @ '' LIMIT '' @ showNat n) vals d = (Inr res, d')
          \<longrightarrow> length (pgRows res) \<le> n)
      \<and> (\<forall>vals d rs fs d'. myQuery p (sql @ '' LIMIT '' @ showNat n) vals d = (Inr (MySelect rs fs), d')
          \<longrightarrow> length rs \<le> n)
      \<and> (\<forall>d stmt d1 rs d2. prepare p (sql @ '' LIMIT '' @ showNat n) d = (Inr stmt, d1)
              \<and> stmtAll p stmt d1 = (Inr rs, d2)
          \<longrightarrow> length rs \<le> n)
      \<and> (\<forall>conn binds opts d res d' rs. execute p conn sql binds opts d = (Inr res, d')
              \<and> getProp opts ''maxRows'' = VNum (int n) \<and> oraRows res = Some rs
          \<longrightarrow> length rs \<le> n))"




text \<open>
  What the caller has to avoid: behind a statement that ends in a line comment the
  appended clause is part of the comment. \<open>chattyPool\<close> answers with the two rows of such
  a table, and does not apply the cap 1 to this statement.
\<close>

definition chattyPool :: "nat pool" where
  "chattyPool =
     idlePool\<lparr>pgQuery := (\<lambda>sql vals d.
        (Inr \<lparr>pgFields = [''id''], pgRows = [[(''id'', VNum 1)], [(''id'', VNum 2)]],
              pgRowCount = Some 2\<rparr>, d))\<rparr>"

lemma showNat_1: "showNat (Suc 0) = ''1''"
  by code_simp


lemma executeQuery_clause_in_comment:
  "\<exists>res w'. executeQuery (connectionOn Postgresql chattyPool) ''SELECT id FROM t --'' (Some 1) world0
              = (Inr res, w')
      \<and> trace w' = [(PgQuery ''SELECT id FROM t -- LIMIT 1'' [], True)]
      \<and> length (rows res) = 2"
  by (simp add: executeQuery_def executePostgresQuery_def limited_def connectionOn_def
      chattyPool_def idlePool_def world0_def tryCatch_def bnd_def ret_def native_def Let_def
      showNat_1)

lemma chattyPool_cap_not_applied: "\<not> appliesCap chattyPool ''SELECT id FROM t --'' 1"
  by (simp add: appliesCap_def chattyPool_def)


definition streamPool :: "nat pool" where
  "streamPool =
     idlePool\<lparr>request := (\<lambda>d. (Inr 7, d)),
       requestQuery := (\<lambda>req sql d.
         (Inr ([ColumnMetadata [''id''], RowEvent [(''id'', VNum 1)], RowEvent [(''id'', VNum 2)],
                RowEvent [(''id'', VNum 3)]], RequestCompleted), d))\<rparr>"


lemma appliesCap_streamPool: "appliesCap streamPool ''SELECT id FROM t'' 2"
  by (simp add: appliesCap_def streamPool_def idlePool_def failing_def)





section \<open>migrateTable: batches\<close>

text \<open>
  The consecutive slices of a list, \<open>n\<close> elements each and the rest in the last one, and
  the \<open>insertBatch\<close> calls for a list of slices, one after the other from the first; the
  calls stop at the first that throws. \<open>runBatches\<close> returns the counts that the calls
  returned.
\<close>

function batches :: "nat \<Rightarrow> 'a list \<Rightarrow> 'a list list" where
  "batches n xs = (if n = 0 \<or> xs = [] then [] else take n xs # batches n (drop n xs))"
  by pat_completeness auto
termination
  by (relation "measure (\<lambda>(n, xs). length xs)") auto

declare batches.simps [simp del]

lemma batches_Nil: "batches n [] = []"
  by (simp add: batches.simps)

lemma batches_step: "0 < n \<Longrightarrow> xs \<noteq> [] \<Longrightarrow> batches n xs = take n xs # batches n (drop n xs)"
  by (subst batches.simps) simp

lemma concat_batches: "0 < n \<Longrightarrow> concat (batches n xs) = xs"
proof (induction n xs rule: batches.induct)
  case (1 n xs)
  show ?case
  proof (cases "xs = []")
    case True
    then show ?thesis by (simp add: batches_Nil)
  next
    case False
    with 1 show ?thesis by (simp add: batches_step)
  qed
qed

lemma batches_sizes: "0 < n \<Longrightarrow> b \<in> set (batches n xs) \<Longrightarrow> b \<noteq> [] \<and> length b \<le> n"
proof (induction n xs rule: batches.induct)
  case (1 n xs)
  show ?case
  proof (cases "xs = []")
    case True
    with 1 show ?thesis by (simp add: batches_Nil)
  next
    case False
    with 1 show ?thesis by (auto simp: batches_step)
  qed
qed

lemma sum_batches: "0 < n \<Longrightarrow> sum_list (map length (batches n xs)) = length xs"
proof -
  assume "0 < n"
  then have "length (concat (batches n xs)) = length xs" by (simp add: concat_batches)
  then show ?thesis by (simp add: length_concat)
qed

fun runBatches ::
  "'d connection \<Rightarrow> string \<Rightarrow> row list list \<Rightarrow> 'd world \<Rightarrow> (error + nat list) \<times> 'd world" where
  "runBatches target targetName [] w = (Inr [], w)"
| "runBatches target targetName (b # bs) w =
     (case insertBatch target targetName b w of
        (Inl e, w1) \<Rightarrow> (Inl e, w1)
      | (Inr k, w1) \<Rightarrow>
          (case runBatches target targetName bs w1 of
             (Inl e, w2) \<Rightarrow> (Inl e, w2)
           | (Inr ks, w2) \<Rightarrow> (Inr (k # ks), w2)))"

text \<open>The outcome of the batch loop, given the outcome of the calls.\<close>

definition afterBatches ::
  "nat \<Rightarrow> (error + nat list) \<times> 'd world \<Rightarrow> (error + nat) \<times> 'd world" where
  "afterBatches n r = (case r of (Inl e, w) \<Rightarrow> (Inl e, w) | (Inr ks, w) \<Rightarrow> (Inr n, w))"

lemma insertBatches_runBatches:
  assumes "0 < batchSize"
  shows "insertBatches target targetName rws batchSize i totalInserted w =
     Some (afterBatches (totalInserted + length (drop i rws))
             (runBatches target targetName (batches batchSize (drop i rws)) w))"
proof (induction "length rws - i" arbitrary: i totalInserted w rule: less_induct)
  case less
  show ?case
  proof (cases "i < length rws")
    case False
    then show ?thesis
      by (subst insertBatches.simps) (simp add: batches_Nil afterBatches_def)
  next
    case True
    let ?b = "take batchSize (drop i rws)"
    have ne: "drop i rws \<noteq> []" using True by simp
    have bs: "batches batchSize (drop i rws) = ?b # batches batchSize (drop (i + batchSize) rws)"
      using batches_step [OF assms ne] by (simp add: add.commute)
    have len: "length ?b + length (drop (i + batchSize) rws) = length (drop i rws)"
      by (simp add: min_def)
    have sm: "length rws - (i + batchSize) < length rws - i"
      using True assms by simp
    obtain r w1 where ib: "insertBatch target targetName ?b w = (r, w1)"
      by (cases "insertBatch target targetName ?b w")
    show ?thesis
    proof (cases r)
      case (Inl e)
      with ib True show ?thesis
        by (subst insertBatches.simps) (simp add: bs afterBatches_def)
    next
      case (Inr k)
      have "insertBatches target targetName rws batchSize i totalInserted w =
          insertBatches target targetName rws batchSize (i + batchSize)
            (totalInserted + length ?b) w1"
        using ib Inr True by (subst insertBatches.simps) simp
      also have "\<dots> = Some (afterBatches (totalInserted + length ?b + length (drop (i + batchSize) rws))
             (runBatches target targetName (batches batchSize (drop (i + batchSize) rws)) w1))"
        using less [OF sm] .
      also have "\<dots> = Some (afterBatches (totalInserted + length (drop i rws))
             (runBatches target targetName (batches batchSize (drop i rws)) w))"
        using ib Inr len
        by (simp add: bs afterBatches_def add.assoc split: prod.splits sum.splits)
      finally show ?thesis .
    qed
  qed
qed

lemma runBatches_length:
  "runBatches target targetName bs w = (Inr ks, w') \<Longrightarrow> length ks = length bs"
  by (induction bs arbitrary: w ks) (auto split: prod.splits sum.splits)

text \<open>The statement of the fetch and the name of the target table.\<close>

definition selectAll :: "column_info list \<Rightarrow> string \<Rightarrow> string" where
  "selectAll cols tn =
     ''SELECT '' @ joinStr '', '' (map joinText (map colName cols)) @ '' FROM '' @ tn"

definition targetNameOf :: "string option \<Rightarrow> string \<Rightarrow> string" where
  "targetNameOf targetTableName tn = (if present targetTableName then the targetTableName else tn)"

lemma migrateTable_default:
  "migrateTable source target tn targetTableName None w =
   migrateTable source target tn targetTableName (Some 1000) w"
  by (simp add: migrateTable_def)

lemma migrateTable_fetched:
  assumes d: "describeTable source tn w = (Inr cols, w1)"
    and q: "executeQuery source (selectAll cols tn) (Some 100000) w1 = (Inr result, w2)"
  shows "migrateTable source target tn targetTableName (Some batchSize) w =
     (if rows result = [] then Some (Inr \<lparr>copied = 0, elapsed = dateNow w2 - dateNow w\<rparr>, w2)
      else (case insertBatches target (targetNameOf targetTableName tn) (rows result) batchSize 0 0 w2 of
              None \<Rightarrow> None
            | Some (Inl e, w3) \<Rightarrow> Some (Inl e, w3)
            | Some (Inr totalInserted, w3) \<Rightarrow>
                Some (Inr \<lparr>copied = totalInserted, elapsed = dateNow w3 - dateNow w\<rparr>, w3)))"
  using d q [unfolded selectAll_def]
  by (simp add: migrateTable_def Let_def targetNameOf_def)

text \<open>
  The shape of \<open>migrateTable\<close> once the describe and the fetch have succeeded.
  \<^item> When the fetch yields no row, \<open>migrateTable\<close> returns at once with zero rows copied,
    in the world the fetch left: no \<open>insertBatch\<close> call is made.
  \<^item> When it yields rows and the batch size is positive (1000 when absent), the rows are
    cut into consecutive slices of the batch size, \<open>insertBatch\<close> is called on the target
    once per slice in order, the first call that throws ends \<open>migrateTable\<close> with its
    error, and when all calls return, the value of \<open>totalInserted\<close> is the sum of the
    lengths of the slices: the counts that the calls returned are not read.
\<close>

lemma migrateTable_batches:
  assumes d: "describeTable source tn w = (Inr cols, w1)"
    and q: "executeQuery source (selectAll cols tn) (Some 100000) w1 = (Inr result, w2)"
  shows "migrateTable source target tn targetTableName None w =
           migrateTable source target tn targetTableName (Some 1000) w
   \<and> (rows result = [] \<longrightarrow>
         migrateTable source target tn targetTableName (Some batchSize) w =
           Some (Inr \<lparr>copied = 0, elapsed = dateNow w2 - dateNow w\<rparr>, w2))
   \<and> (rows result \<noteq> [] \<and> 0 < batchSize \<longrightarrow>
         concat (batches batchSize (rows result)) = rows result
         \<and> (\<forall>b\<in>set (batches batchSize (rows result)). b \<noteq> [] \<and> length b \<le> batchSize)
         \<and> (\<forall>e w3. runBatches target (targetNameOf targetTableName tn)
                       (batches batchSize (rows result)) w2 = (Inl e, w3) \<longrightarrow>
               migrateTable source target tn targetTableName (Some batchSize) w = Some (Inl e, w3))
         \<and> (\<forall>counts w3. runBatches target (targetNameOf targetTableName tn)
                       (batches batchSize (rows result)) w2 = (Inr counts, w3) \<longrightarrow>
               length counts = length (batches batchSize (rows result))
               \<and> migrateTable source target tn targetTableName (Some batchSize) w =
                   Some (Inr \<lparr>copied = sum_list (map length (batches batchSize (rows result))),
                              elapsed = dateNow w3 - dateNow w\<rparr>, w3)
               \<and> sum_list (map length (batches batchSize (rows result))) = length (rows result)))"
proof (intro conjI impI allI ballI)
  show "migrateTable source target tn targetTableName None w =
           migrateTable source target tn targetTableName (Some 1000) w"
    by (rule migrateTable_default)
next
  assume "rows result = []"
  then show "migrateTable source target tn targetTableName (Some batchSize) w =
           Some (Inr \<lparr>copied = 0, elapsed = dateNow w2 - dateNow w\<rparr>, w2)"
    by (simp add: migrateTable_fetched [OF d q])
next
  assume "rows result \<noteq> [] \<and> 0 < batchSize"
  then show "concat (batches batchSize (rows result)) = rows result"
    by (simp add: concat_batches)
next
  fix b
  assume "rows result \<noteq> [] \<and> 0 < batchSize" and "b \<in> set (batches batchSize (rows result))"
  then show "b \<noteq> []" and "length b \<le> batchSize"
    using batches_sizes by blast+
next
  fix e w3
  assume a: "rows result \<noteq> [] \<and> 0 < batchSize"
    and r: "runBatches target (targetNameOf targetTableName tn)
              (batches batchSize (rows result)) w2 = (Inl e, w3)"
  from a have p: "0 < batchSize" by simp
  show "migrateTable source target tn targetTableName (Some batchSize) w = Some (Inl e, w3)"
    using a r by (simp add: migrateTable_fetched [OF d q] insertBatches_runBatches [OF p]
        afterBatches_def)
next
  fix counts w3
  assume a: "rows result \<noteq> [] \<and> 0 < batchSize"
    and r: "runBatches target (targetNameOf targetTableName tn)
              (batches batchSize (rows result)) w2 = (Inr counts, w3)"
  from a have p: "0 < batchSize" by simp
  show "length counts = length (batches batchSize (rows result))"
    using r by (rule runBatches_length)
  show "sum_list (map length (batches batchSize (rows result))) = length (rows result)"
    using p by (rule sum_batches)
  then show "migrateTable source target tn targetTableName (Some batchSize) w =
      Some (Inr \<lparr>copied = sum_list (map length (batches batchSize (rows result))),
                 elapsed = dateNow w3 - dateNow w\<rparr>, w3)"
    using a r by (simp add: migrateTable_fetched [OF d q] insertBatches_runBatches [OF p]
        afterBatches_def)
qed

text \<open>An embedded database with one table of one column \<open>id\<close> and three rows: its
  statements answer in turn with the columns of the table and with its rows.\<close>

definition idColumn :: row where
  "idColumn = [(''name'', VStr ''id''), (''type'', VStr ''INTEGER''), (''notnull'', VNum 0),
               (''pk'', VNum 1)]"

definition threeRows :: "row list" where
  "threeRows = [[(''id'', VNum 1)], [(''id'', VNum 2)], [(''id'', VNum 3)]]"

definition sourcePool :: "nat pool" where
  "sourcePool =
     idlePool\<lparr>prepare := (\<lambda>sql d. (Inr 1, d)),
       stmtAll := (\<lambda>stmt d. (Inr (if even d then [idColumn] else threeRows), Suc d))\<rparr>"

definition sourceDb :: "nat connection" where
  "sourceDb = connectionOn Sqlite sourcePool"

text \<open>A target of the first promise-style vendor that reports one inserted row per bound
  value, and a target of the event-driven vendor.\<close>

definition countingPool :: "nat pool" where
  "countingPool =
     idlePool\<lparr>pgQuery := (\<lambda>sql vals d.
        (Inr \<lparr>pgFields = [], pgRows = [], pgRowCount = Some (length vals)\<rparr>, d))\<rparr>"

definition afterDescribe :: "nat world" where
  "afterDescribe = snd (describeTable sourceDb ''t'' world0)"

definition afterFetch :: "nat world" where
  "afterFetch =
     snd (executeQuery sourceDb (selectAll [columnOf (VStr ''id'') (VStr ''INTEGER'') True True] ''t'')
            (Some 100000) afterDescribe)"

lemma sourceDb_describe:
  "describeTable sourceDb ''t'' world0 =
     (Inr [columnOf (VStr ''id'') (VStr ''INTEGER'') True True], afterDescribe)"
  "outside afterDescribe = 1"
  by (simp_all add: afterDescribe_def describeTable_def describeSqliteTable_def sourceDb_def
      connectionOn_def sourcePool_def idlePool_def world0_def bnd_def native_def ret_def Let_def
      idColumn_def getProp_def)

lemma sourceDb_fetch:
  "executeQuery sourceDb (selectAll [columnOf (VStr ''id'') (VStr ''INTEGER'') True True] ''t'')
      (Some 100000) afterDescribe =
     (Inr \<lparr>columns = [''id''], rows = threeRows, rowCount = 3, executionTime = 0\<rparr>, afterFetch)"
  "outside afterFetch = 2"
  by (simp_all add: afterFetch_def executeQuery_def executeSqliteQuery_def sourceDb_def
      connectionOn_def sourcePool_def idlePool_def tryCatch_def bnd_def native_def ret_def Let_def
      sourceDb_describe(2) threeRows_def objectKeys_def)

lemma batches_threeRows:
  "batches 2 threeRows = [[[(''id'', VNum 1)], [(''id'', VNum 2)]], [[(''id'', VNum 3)]]]"
  "batches 1000 threeRows = [threeRows]"
  by (simp_all add: batches_step batches_Nil threeRows_def)

text \<open>
  Claim C1. \<open>migrateTable\<close> cuts the fetched rows into consecutive slices, calls
  \<open>insertBatch\<close> on the target once per slice, and the \<open>rows\<close> it returns is the sum of the
  inserted counts that these calls return. The code misses the last part: the loop adds
  the length of each slice to \<open>totalInserted\<close> and drops what \<open>insertBatch\<close> returned. For a
  target of the event-driven vendor, where \<open>insertBatch\<close> falls through to \<open>return 0\<close>, the
  copy of a table of three rows makes the one \<open>insertBatch\<close> call, which returns 0 and
  calls nothing on the target (the world stays the one the fetch left), and
  \<open>migrateTable\<close> reports 3 rows copied.
\<close>

theorem migrateTable_reports_rows_not_inserted:
  "\<exists>res. migrateTable sourceDb (connectionOn Sqlserver idlePool) ''t'' None None world0
              = Some (Inr res, afterFetch)
     \<and> runBatches (connectionOn Sqlserver idlePool) ''t'' (batches 1000 threeRows) afterFetch
          = (Inr [0], afterFetch)
     \<and> copied res = 3 \<and> copied res \<noteq> sum_list [0]"
proof -
  let ?t = "connectionOn Sqlserver idlePool"
  have r: "runBatches ?t ''t'' (batches 1000 threeRows) afterFetch = (Inr [0], afterFetch)"
    unfolding batches_threeRows
    by (simp add: insertBatch_def threeRows_def connectionOn_def ret_def tryCatch_def Let_def)
  have n: "rows \<lparr>columns = [''id''], rows = threeRows, rowCount = 3, executionTime = 0\<rparr> \<noteq> []"
    by (simp add: threeRows_def)
  have "migrateTable sourceDb ?t ''t'' None (Some 1000) world0 =
      Some (Inr \<lparr>copied = 3, elapsed = dateNow afterFetch - dateNow world0\<rparr>, afterFetch)"
    using r n
    by (simp add: migrateTable_fetched [OF sourceDb_describe(1) sourceDb_fetch(1)]
        insertBatches_runBatches afterBatches_def targetNameOf_def present_def threeRows_def)
  with r show ?thesis
    by (simp add: migrateTable_default)
qed

text \<open>The values bound by the statements of the first promise-style driver, per call.\<close>

definition boundValues :: "(call \<times> bool) list \<Rightarrow> val list list" where
  "boundValues evs =
     concat (map (\<lambda>ev. case fst ev of PgQuery s vals \<Rightarrow> [vals] | x \<Rightarrow> []) evs)"

lemma runBatches_countingPool:
  "\<exists>w3. runBatches (connectionOn Postgresql countingPool) ''t'' (batches 2 threeRows) afterFetch
           = (Inr [2, 1], w3)
        \<and> boundValues (drop (length (trace afterFetch)) (trace w3)) = [[VNum 1, VNum 2], [VNum 3]]"
  by (simp add: batches_threeRows insertBatch_def connectionOn_def countingPool_def idlePool_def
      ret_def bnd_def native_def tryCatch_def throw_def Let_def objectKeys_def getProp_def
      sourceDb_fetch(2) boundValues_def)

text \<open>With a target that inserts, and a batch size of 2, the three rows go in two
  statements.\<close>

lemma migrateTable_batches_example:
  "\<exists>res w'. migrateTable sourceDb (connectionOn Postgresql countingPool) ''t'' None (Some 2) world0
              = Some (Inr res, w')
     \<and> copied res = 3
     \<and> boundValues (drop (length (trace afterFetch)) (trace w')) = [[VNum 1, VNum 2], [VNum 3]]"
proof -
  let ?t = "connectionOn Postgresql countingPool"
  let ?res = "\<lparr>columns = [''id''], rows = threeRows, rowCount = 3, executionTime = 0\<rparr>"
  note th = migrateTable_batches [OF sourceDb_describe(1) sourceDb_fetch(1), of ?t None 2]
  have n: "rows ?res \<noteq> [] \<and> (0::nat) < 2"
    by (simp add: threeRows_def)
  have t: "targetNameOf None ''t'' = ''t''"
    by (simp add: targetNameOf_def present_def)
  obtain w3 where r: "runBatches ?t ''t'' (batches 2 (rows ?res)) afterFetch = (Inr [2, 1], w3)"
    and b: "boundValues (drop (length (trace afterFetch)) (trace w3)) = [[VNum 1, VNum 2], [VNum 3]]"
    using runBatches_countingPool by (auto simp: threeRows_def)
  from th n r t
  have "migrateTable sourceDb ?t ''t'' None (Some 2) world0 =
      Some (Inr \<lparr>copied = sum_list (map length (batches 2 (rows ?res))),
                 elapsed = dateNow w3 - dateNow world0\<rparr>, w3)"
    and "sum_list (map length (batches 2 (rows ?res))) = length (rows ?res)"
    by (metis (no_types, lifting))+
  with b show ?thesis
    by (simp add: threeRows_def)
qed

section \<open>migrateData: one entry per table\<close>

text \<open>With the batch size of the default, \<open>migrateTable\<close> always returns.\<close>

lemma migrateTable_returns:
  "\<exists>r w'. migrateTable source target tn targetTableName None w = Some (r, w')"
  by (auto simp: migrateTable_def Let_def insertBatches_runBatches afterBatches_def
      split: prod.splits sum.splits)

text \<open>
  The copies of the requested tables one after the other, each from the world the one
  before it left, whether that one threw or not, with the outcome of each; and the
  report entry of an outcome.
\<close>

fun migrateEach ::
  "'d connection \<Rightarrow> 'd connection \<Rightarrow> string list \<Rightarrow> 'd world
   \<Rightarrow> ((string \<times> (error + migrate_result)) list \<times> 'd world) option" where
  "migrateEach source target [] w = Some ([], w)"
| "migrateEach source target (t # tables) w =
     (case migrateTable source target t None None w of
        None \<Rightarrow> None
      | Some (r, w1) \<Rightarrow>
          (case migrateEach source target tables w1 of
             None \<Rightarrow> None
           | Some (outs, w2) \<Rightarrow> Some ((t, r) # outs, w2)))"

fun entryOf :: "string \<times> (error + migrate_result) \<Rightarrow> report_entry" where
  "entryOf (t, Inr res) = Success t (copied res) (elapsed res)"
| "entryOf (t, Inl e) = Failure t (message e)"

lemma entryTable_entryOf: "entryTable (entryOf out) = fst out"
  by (cases out rule: entryOf.cases) simp_all

lemma migrateEach_total:
  "\<exists>outs w'. migrateEach source target tables w = Some (outs, w') \<and> map fst outs = tables"
proof (induction tables arbitrary: w)
  case Nil
  then show ?case by simp
next
  case (Cons t tables)
  obtain r w1 where m: "migrateTable source target t None None w = Some (r, w1)"
    using migrateTable_returns by blast
  from Cons [of w1] obtain outs w2 where
    "migrateEach source target tables w1 = Some (outs, w2)" "map fst outs = tables"
    by blast
  with m show ?case by simp
qed

lemma migrateDataLoop_each:
  "migrateDataLoop source target tables truncateTarget results w =
     (case migrateEach source target tables w of
        None \<Rightarrow> None
      | Some (outs, w') \<Rightarrow> Some (results @ map entryOf outs, w'))"
  by (induction tables arbitrary: results w) (auto split: option.splits sum.splits)

text \<open>
  Claim C4, as amended. For every list of requested tables \<open>migrateData\<close> returns, and its
  report has exactly one entry per requested table, in the order of the request: the
  entry of a table is made from the outcome of its copy, run after the copies of all the
  tables before it, whatever their outcomes. A copy that succeeds gives a success entry
  with its row count; a copy that throws gives an error entry with the message of the
  error thrown. The flag \<open>truncateTarget\<close> changes nothing.
\<close>

theorem migrateData_report:
  "\<exists>outs entries w'.
      migrateEach source target tables w = Some (outs, w') \<and> map fst outs = tables
      \<and> migrateData source target tables truncateTarget w = Some (entries, w')
      \<and> entries = map entryOf outs
      \<and> length entries = length tables \<and> map entryTable entries = tables"
proof -
  from migrateEach_total [of source target tables w]
  obtain outs w' where e: "migrateEach source target tables w = Some (outs, w')"
    and f: "map fst outs = tables"
    by blast
  have "migrateData source target tables truncateTarget w = Some (map entryOf outs, w')"
    by (simp add: migrateData_def migrateDataLoop_each e)
  moreover have "map entryTable (map entryOf outs) = tables"
    using f by (simp add: entryTable_entryOf comp_def)
  moreover have "length (map entryOf outs) = length tables"
    using f by (metis length_map)
  ultimately show ?thesis using e f by blast
qed

text \<open>
  The claim as stated, with a non-empty message in every error entry, fails: the entry
  takes the message of the error as it is, and an error of a driver can have the empty
  message (what Node reports when every connection attempt is refused, for one).
\<close>

definition silentPool :: "nat pool" where
  "silentPool = idlePool\<lparr>pgQuery := (\<lambda>sql vals d. (Inl (Error []), d))\<rparr>"

theorem migrateData_message_counterexample:
  "\<exists>w'. migrateData (connectionOn Postgresql silentPool) (connectionOn Postgresql silentPool)
            [''A''] False world0 = Some ([Failure ''A'' []], w')
       \<and> entryStatus (Failure ''A'' []) = ''error''"
  by (simp add: migrateData_def migrateTable_def describeTable_def describePostgresTable_def
      connectionOn_def silentPool_def idlePool_def world0_def bnd_def native_def Let_def)

text \<open>Two requested tables, the second of which does not exist.\<close>

lemma batches_single: "0 < n \<Longrightarrow> xs \<noteq> [] \<Longrightarrow> length xs \<le> n \<Longrightarrow> batches n xs = [xs]"
  by (simp add: batches_step batches_Nil)

definition abPool :: "nat pool" where
  "abPool =
     idlePool\<lparr>prepare := (\<lambda>sql d. if d < 2 then (Inr 1, d)
                                   else (Inl (Error ''no such table: B''), d)),
       stmtAll := (\<lambda>stmt d. (Inr (if even d then [idColumn] else threeRows), Suc d))\<rparr>"

lemma migrateEach_abPool:
  "\<exists>res w1 w'. migrateEach (connectionOn Sqlite abPool) (connectionOn Postgresql countingPool)
        [''A'', ''B''] world0
      = Some ([(''A'', Inr res), (''B'', Inl (Error ''no such table: B''))], w')
      \<and> copied res = 3"
  by (simp add: migrateTable_def describeTable_def describeSqliteTable_def
      executeQuery_def executeSqliteQuery_def insertBatches_runBatches afterBatches_def
      connectionOn_def abPool_def countingPool_def idlePool_def world0_def
      bnd_def native_def ret_def throw_def tryCatch_def Let_def idColumn_def getProp_def
      columnOf_def present_def batches_single insertBatch_def objectKeys_def threeRows_def)

theorem migrateData_report_witness:
  "\<exists>ms w'. migrateData (connectionOn Sqlite abPool) (connectionOn Postgresql countingPool)
        [''A'', ''B''] False world0
      = Some ([Success ''A'' 3 ms, Failure ''B'' ''no such table: B''], w')"
proof -
  let ?s = "connectionOn Sqlite abPool"
  let ?t = "connectionOn Postgresql countingPool"
  from migrateData_report [of ?s ?t "[''A'', ''B'']" world0 False]
  obtain outs entries w' where e: "migrateEach ?s ?t [''A'', ''B''] world0 = Some (outs, w')"
    and m: "migrateData ?s ?t [''A'', ''B''] False world0 = Some (entries, w')"
    and o: "entries = map entryOf outs"
    by blast
  from migrateEach_abPool e obtain res where
    "outs = [(''A'', Inr res), (''B'', Inl (Error ''no such table: B''))]" "copied res = 3"
    by auto
  with o have "entries = [Success ''A'' 3 (elapsed res), Failure ''B'' ''no such table: B'']"
    by simp
  with m show ?thesis by blast
qed

section \<open>replicate\_database: views, notes and failures\<close>




























end
